theory Spec2Isabelle
  imports Complex_Main "HOL-Library.Word"
begin

section \<open>Content catalog (constants.ts)\<close>

text \<open>
  The catalog tables are translated entry by entry, in the order of the source. A TypeScript
  \<open>number\<close> holding an integer literal is an \<open>int\<close>; the decimal literals of
  \<open>triggerChance\<close> are the real numbers they denote (their rounding to a double moves none of
  them across 0 or 1). An optional field (\<open>cost?\<close>, \<open>targetScene?\<close>, \<open>reqId?\<close>, the deltas of an
  outcome) is an \<open>option\<close>. Identifiers are ASCII and are kept as \<open>string\<close>; the feedback text
  of an outcome is the list of its UTF-16 code units, which is what a JavaScript string is.
  Fields that only the presentation layer reads (names, titles, labels, descriptions, icons,
  colours, dialogue and flavour text) carry no constraint of the engine and are left out of
  the records. Several interfaces share field names (\<open>id\<close>, \<open>cost\<close>, \<open>money\<close>), so the
  fields of a record carry a prefix: \<open>sk_\<close> for a skill, \<open>act_\<close> for an action, \<open>ev_\<close> for
  an event, \<open>o_\<close> for an outcome, \<open>npc_\<close>, \<open>bs_\<close>, \<open>job_\<close> and \<open>origin_\<close>.

  The module \<open>types.ts\<close> is not among the sources. The enumerations below list the values the
  sources use: the keys of \<open>JOBS\<close> for \<open>Profession\<close>, the keys of \<open>ORIGINS\<close> for
  \<open>OriginType\<close>, the categories and types occurring in \<open>SKILLS\<close> and in the action lists, and
  for \<open>SceneType\<close> the three scenes that \<open>GET_SCENE_ACTIONS\<close> and \<open>OfficeScene.tsx\<close>
  distinguish (\<open>'HR'\<close>, \<open>'WORKSTATION'\<close>, and the boss office as the remaining case).
\<close>

datatype Profession = INTERN | JUNIOR | SENIOR | MANAGER | DIRECTOR

datatype SceneType = HR | WORKSTATION | BOSS_OFFICE

datatype OriginType = GRINDER | HEIR | SOCIALITE

datatype SkillCategory = EFFICIENCY | POLITICS | SURVIVAL

datatype ActionType = WORK | PLEASE | REBEL | TALK | VIOLENCE

type_synonym jstext = "16 word list"

subsection \<open>Origins\<close>

record BaseStats =
  bs_money :: int
  bs_charm :: int
  bs_intellect :: int

record OriginConfig =
  origin_id :: OriginType
  baseStats :: BaseStats

fun ORIGINS :: "OriginType \<Rightarrow> OriginConfig" where
  "ORIGINS GRINDER =
     \<lparr>origin_id = GRINDER, baseStats = \<lparr>bs_money = -50000, bs_charm = 10, bs_intellect = 90\<rparr>\<rparr>"
| "ORIGINS HEIR =
     \<lparr>origin_id = HEIR, baseStats = \<lparr>bs_money = 1000000, bs_charm = 50, bs_intellect = 40\<rparr>\<rparr>"
| "ORIGINS SOCIALITE =
     \<lparr>origin_id = SOCIALITE, baseStats = \<lparr>bs_money = 50000, bs_charm = 90, bs_intellect = 60\<rparr>\<rparr>"

subsection \<open>Skills\<close>

record SkillConfig =
  sk_id :: string
  sk_category :: SkillCategory
  sk_cost :: int
  sk_maxLevel :: int
  sk_reqId :: "string option"

definition SKILLS :: "SkillConfig list" where
  "SKILLS = [
     \<lparr>sk_id = ''eff_typing'', sk_category = EFFICIENCY, sk_cost = 1, sk_maxLevel = 5,
      sk_reqId = None\<rparr>,
     \<lparr>sk_id = ''eff_coffee'', sk_category = EFFICIENCY, sk_cost = 2, sk_maxLevel = 3,
      sk_reqId = Some ''eff_typing''\<rparr>,
     \<lparr>sk_id = ''eff_auto'', sk_category = EFFICIENCY, sk_cost = 5, sk_maxLevel = 1,
      sk_reqId = Some ''eff_coffee''\<rparr>,
     \<lparr>sk_id = ''pol_smile'', sk_category = POLITICS, sk_cost = 1, sk_maxLevel = 5,
      sk_reqId = None\<rparr>,
     \<lparr>sk_id = ''pol_gossip'', sk_category = POLITICS, sk_cost = 2, sk_maxLevel = 3,
      sk_reqId = Some ''pol_smile''\<rparr>,
     \<lparr>sk_id = ''pol_master'', sk_category = POLITICS, sk_cost = 5, sk_maxLevel = 1,
      sk_reqId = Some ''pol_gossip''\<rparr>,
     \<lparr>sk_id = ''sur_zen'', sk_category = SURVIVAL, sk_cost = 1, sk_maxLevel = 5,
      sk_reqId = None\<rparr>,
     \<lparr>sk_id = ''sur_gym'', sk_category = SURVIVAL, sk_cost = 2, sk_maxLevel = 3,
      sk_reqId = Some ''sur_zen''\<rparr>,
     \<lparr>sk_id = ''sur_law'', sk_category = SURVIVAL, sk_cost = 5, sk_maxLevel = 1,
      sk_reqId = Some ''sur_gym''\<rparr>]"

subsection \<open>Random events\<close>

record Outcome =
  o_money :: "int option"
  o_favor :: "int option"
  o_rage :: "int option"
  o_sp :: "int option"
  feedbackText :: jstext

record EventOption =
  outcome :: Outcome

record RandomEvent =
  ev_id :: string
  ev_npcRole :: string
  ev_triggerChance :: real
  ev_options :: "EventOption list"

definition evt_boss_secret :: RandomEvent where
  "evt_boss_secret =
    \<lparr>ev_id = ''evt_boss_secret'', ev_npcRole = ''BOSS'', ev_triggerChance = 15 / 100,
     ev_options = [
       \<lparr>outcome = \<lparr>o_money = None, o_favor = Some 10, o_rage = Some (-20), o_sp = Some 2,
          feedbackText =
           [0x5494, 0x5693, 0x3002, 0x89C6, 0x9891, 0x975E, 0x5E38, 0x6E05, 0x6670, 0x3002,
            0x4F60, 0x638C, 0x63E1, 0x4E86, 0x8001, 0x677F, 0x7684, 0x547D, 0x95E8, 0xFF01,
            0x28, 0x83B7, 0x5F97, 0x6280, 0x80FD, 0x70B9, 0x29]\<rparr>\<rparr>,
       \<lparr>outcome = \<lparr>o_money = Some 20000, o_favor = Some 50, o_rage = Some (-50), o_sp = None,
          feedbackText =
           [0x8001, 0x677F, 0x8138, 0x8272, 0x94C1, 0x9752, 0x5730, 0x7ED9, 0x4F60, 0x8F6C,
            0x4E86, 0x8D26, 0xFF0C, 0x5E76, 0x627F, 0x8BFA, 0x4E0B, 0x6708, 0x664B, 0x5347,
            0x4F60, 0x3002]\<rparr>\<rparr>,
       \<lparr>outcome = \<lparr>o_money = None, o_favor = Some (-50), o_rage = Some 20, o_sp = None,
          feedbackText =
           [0x8001, 0x677F, 0x5413, 0x4E86, 0x4E00, 0x8DF3, 0xFF0C, 0x968F, 0x540E, 0x7528,
            0x8981, 0x6740, 0x4EBA, 0x7684, 0x773C, 0x795E, 0x77AA, 0x4E86, 0x4F60, 0x4E00,
            0x773C, 0x3002, 0x597D, 0x611F, 0x5EA6, 0x5927, 0x964D, 0xFF01]\<rparr>\<rparr>]\<rparr>"

definition evt_betrayal :: RandomEvent where
  "evt_betrayal =
    \<lparr>ev_id = ''evt_betrayal'', ev_npcRole = ''COLLEAGUE'', ev_triggerChance = 2 / 10,
     ev_options = [
       \<lparr>outcome = \<lparr>o_money = None, o_favor = Some (-20), o_rage = Some (-100), o_sp = None,
          feedbackText =
           [0x4F60, 0x5728, 0x4F1A, 0x4E0A, 0x5927, 0x95F9, 0x4E00, 0x573A, 0xFF0C, 0x867D,
            0x7136, 0x723D, 0x4E86, 0xFF0C, 0x4F46, 0x5927, 0x5BB6, 0x89C9, 0x5F97, 0x4F60,
            0x60C5, 0x7EEA, 0x4E0D, 0x7A33, 0x5B9A, 0x3002]\<rparr>\<rparr>,
       \<lparr>outcome = \<lparr>o_money = Some 1000, o_favor = None, o_rage = Some 10, o_sp = None,
          feedbackText =
           [0x47, 0x61, 0x72, 0x79, 0x5FC3, 0x865A, 0x5730, 0x5206, 0x4E86, 0x4F60,
            0x4E00, 0x534A, 0x5956, 0x91D1, 0x4F5C, 0x4E3A, 0x5C01, 0x53E3, 0x8D39, 0x3002]\<rparr>\<rparr>,
       \<lparr>outcome = \<lparr>o_money = None, o_favor = None, o_rage = Some 50, o_sp = Some 1,
          feedbackText =
           [0x4F60, 0x9ED8, 0x9ED8, 0x8BB0, 0x4E0B, 0x4E86, 0x8FD9, 0x7B14, 0x8D26, 0x3002,
            0x5FC3, 0x673A, 0x2B, 0x31, 0xFF0C, 0x83B7, 0x5F97, 0x6280, 0x80FD, 0x70B9,
            0x3002]\<rparr>\<rparr>]\<rparr>"

definition evt_offer :: RandomEvent where
  "evt_offer =
    \<lparr>ev_id = ''evt_offer'', ev_npcRole = ''HR'', ev_triggerChance = 1 / 10,
     ev_options = [
       \<lparr>outcome = \<lparr>o_money = Some 0, o_favor = Some 40, o_rage = None, o_sp = None,
          feedbackText =
           [0x8001, 0x677F, 0x65E0, 0x610F, 0x4E2D, 0x542C, 0x5230, 0x4E86, 0x4F60, 0x7684,
            0x62D2, 0x7EDD, 0xFF0C, 0x5BF9, 0x4F60, 0x7684, 0x5FE0, 0x8BDA, 0x5EA6, 0x975E,
            0x5E38, 0x6EE1, 0x610F, 0x3002]\<rparr>\<rparr>,
       \<lparr>outcome = \<lparr>o_money = None, o_favor = Some (-10), o_rage = Some 20, o_sp = None,
          feedbackText =
           [0x4F60, 0x72B9, 0x8C6B, 0x7684, 0x6001, 0x5EA6, 0x88AB, 0x48, 0x52, 0x770B,
            0x5728, 0x773C, 0x91CC, 0xFF0C, 0x5979, 0x5F00, 0x59CB, 0x63D0, 0x9632, 0x4F60,
            0x4E86, 0x3002]\<rparr>\<rparr>,
       \<lparr>outcome = \<lparr>o_money = Some 5000, o_favor = Some 20, o_rage = None, o_sp = Some 1,
          feedbackText =
           [0x4F60, 0x5047, 0x88C5, 0x7B54, 0x5E94, 0x730E, 0x5934, 0x5957, 0x53D6, 0x4E86,
            0x7ADE, 0x5BF9, 0x60C5, 0x62A5, 0xFF0C, 0x53CD, 0x624B, 0x6C47, 0x62A5, 0x7ED9,
            0x8001, 0x677F, 0x3002, 0x8D62, 0x9EBB, 0x4E86, 0xFF01]\<rparr>\<rparr>]\<rparr>"

definition evt_blame :: RandomEvent where
  "evt_blame =
    \<lparr>ev_id = ''evt_blame'', ev_npcRole = ''COLLEAGUE'', ev_triggerChance = 15 / 100,
     ev_options = [
       \<lparr>outcome = \<lparr>o_money = None, o_favor = Some 30, o_rage = Some (-20), o_sp = Some 1,
          feedbackText =
           [0x5B9E, 0x4E60, 0x751F, 0x54ED, 0x7740, 0x80CC, 0x4E86, 0x9505, 0xFF0C, 0x9AD8,
            0x5C42, 0x89C9, 0x5F97, 0x4F60, 0x5F88, 0x6709, 0x7BA1, 0x7406, 0x624B, 0x8155,
            0x3002]\<rparr>\<rparr>,
       \<lparr>outcome = \<lparr>o_money = None, o_favor = Some (-30), o_rage = Some 50, o_sp = Some 2,
          feedbackText =
           [0x867D, 0x7136, 0x88AB, 0x9A82, 0x4E86, 0xFF0C, 0x4F46, 0x4F60, 0x5728, 0x56E2,
            0x961F, 0x4E2D, 0x5A01, 0x671B, 0x63D0, 0x5347, 0x4E86, 0x3002]\<rparr>\<rparr>,
       \<lparr>outcome = \<lparr>o_money = None, o_favor = Some 50, o_rage = Some 100, o_sp = None,
          feedbackText =
           [0x95EE, 0x9898, 0x89E3, 0x51B3, 0x4E86, 0xFF0C, 0x4F46, 0x4F60, 0x7684, 0x53D1,
            0x9645, 0x7EBF, 0x540E, 0x79FB, 0x4E86, 0x32, 0x5398, 0x7C73, 0x3002]\<rparr>\<rparr>]\<rparr>"

definition evt_coffee :: RandomEvent where
  "evt_coffee =
    \<lparr>ev_id = ''evt_coffee'', ev_npcRole = ''HR'', ev_triggerChance = 2 / 10,
     ev_options = [
       \<lparr>outcome = \<lparr>o_money = Some (-200), o_favor = Some 25, o_rage = Some (-30), o_sp = None,
          feedbackText =
           [0x5927, 0x5BB6, 0x90FD, 0x8BF4, 0x4F60, 0x5927, 0x6C14, 0xFF01, 0x597D, 0x611F,
            0x5EA6, 0x55, 0x50, 0xFF01]\<rparr>\<rparr>,
       \<lparr>outcome = \<lparr>o_money = Some (-20), o_favor = None, o_rage = Some (-10), o_sp = None,
          feedbackText =
           [0x5976, 0x8336, 0x771F, 0x597D, 0x559D, 0x3002]\<rparr>\<rparr>,
       \<lparr>outcome = \<lparr>o_money = None, o_favor = Some (-5), o_rage = Some 10, o_sp = None,
          feedbackText =
           [0x4F60, 0x663E, 0x5F97, 0x6709, 0x70B9, 0x4E0D, 0x5408, 0x7FA4, 0x3002]\<rparr>\<rparr>]\<rparr>"

definition RANDOM_EVENTS :: "RandomEvent list" where
  "RANDOM_EVENTS = [evt_boss_secret, evt_betrayal, evt_offer, evt_blame, evt_coffee]"

subsection \<open>NPC roster\<close>

record NPCConfig =
  npc_id :: string
  npc_role :: string

text \<open>\<open>NPCS\<close> is an object keyed by role name; \<open>NPCS_lookup\<close> is the property access.\<close>

definition NPCS :: "(string \<times> NPCConfig) list" where
  "NPCS = [
     (''HR'', \<lparr>npc_id = ''hr_linda'', npc_role = ''HR''\<rparr>),
     (''COLLEAGUE'', \<lparr>npc_id = ''colleague_gary'', npc_role = ''COLLEAGUE''\<rparr>)]"

definition NPCS_lookup :: "string \<Rightarrow> NPCConfig option" where
  "NPCS_lookup role = map_of NPCS role"

subsection \<open>Actions and jobs\<close>

record GameAction =
  act_id :: string
  act_type :: ActionType
  act_cost :: "int option"
  act_value :: int
  act_cooldown :: int
  act_targetScene :: "SceneType option"

definition COMMON_VIOLENCE :: "GameAction list" where
  "COMMON_VIOLENCE = [
     \<lparr>act_id = ''punch'', act_type = VIOLENCE, act_cost = Some 100, act_value = 20,
      act_cooldown = 500, act_targetScene = None\<rparr>,
     \<lparr>act_id = ''kick'', act_type = VIOLENCE, act_cost = Some 100, act_value = 30,
      act_cooldown = 800, act_targetScene = None\<rparr>,
     \<lparr>act_id = ''scold'', act_type = VIOLENCE, act_cost = Some 100, act_value = 15,
      act_cooldown = 200, act_targetScene = None\<rparr>,
     \<lparr>act_id = ''combo'', act_type = VIOLENCE, act_cost = Some 300, act_value = 100,
      act_cooldown = 2000, act_targetScene = None\<rparr>]"

definition WORK_ACTIONS :: "GameAction list" where
  "WORK_ACTIONS = [
     \<lparr>act_id = ''work_hard'', act_type = WORK, act_cost = None, act_value = 10,
      act_cooldown = 1000, act_targetScene = Some WORKSTATION\<rparr>,
     \<lparr>act_id = ''gossip'', act_type = TALK, act_cost = None, act_value = 15,
      act_cooldown = 2000, act_targetScene = Some WORKSTATION\<rparr>,
     \<lparr>act_id = ''help'', act_type = PLEASE, act_cost = None, act_value = 20,
      act_cooldown = 3000, act_targetScene = Some WORKSTATION\<rparr>]"

definition HR_ACTIONS :: "GameAction list" where
  "HR_ACTIONS = [
     \<lparr>act_id = ''onboard'', act_type = PLEASE, act_cost = None, act_value = 0,
      act_cooldown = 10000, act_targetScene = Some HR\<rparr>,
     \<lparr>act_id = ''resign'', act_type = REBEL, act_cost = None, act_value = 0,
      act_cooldown = 5000, act_targetScene = Some HR\<rparr>,
     \<lparr>act_id = ''argue_hr'', act_type = VIOLENCE, act_cost = Some 50, act_value = 50,
      act_cooldown = 2000, act_targetScene = Some HR\<rparr>]"

record JobConfig =
  job_id :: Profession
  maxFavor :: int
  actions :: "GameAction list"

fun JOBS :: "Profession \<Rightarrow> JobConfig" where
  "JOBS INTERN =
     \<lparr>job_id = INTERN, maxFavor = 100, actions = [
        \<lparr>act_id = ''tea'', act_type = PLEASE, act_cost = None, act_value = 10,
         act_cooldown = 1500, act_targetScene = Some BOSS_OFFICE\<rparr>,
        \<lparr>act_id = ''clean'', act_type = PLEASE, act_cost = None, act_value = 15,
         act_cooldown = 2000, act_targetScene = Some BOSS_OFFICE\<rparr>,
        \<lparr>act_id = ''slack'', act_type = REBEL, act_cost = None, act_value = 10,
         act_cooldown = 1000, act_targetScene = Some BOSS_OFFICE\<rparr>]\<rparr>"
| "JOBS JUNIOR =
     \<lparr>job_id = JUNIOR, maxFavor = 250, actions = [
        \<lparr>act_id = ''ot'', act_type = PLEASE, act_cost = None, act_value = 20,
         act_cooldown = 2500, act_targetScene = Some BOSS_OFFICE\<rparr>,
        \<lparr>act_id = ''laugh'', act_type = PLEASE, act_cost = None, act_value = 15,
         act_cooldown = 1500, act_targetScene = Some BOSS_OFFICE\<rparr>,
        \<lparr>act_id = ''refuse'', act_type = REBEL, act_cost = None, act_value = 20,
         act_cooldown = 2000, act_targetScene = Some BOSS_OFFICE\<rparr>]\<rparr>"
| "JOBS SENIOR =
     \<lparr>job_id = SENIOR, maxFavor = 500, actions = [
        \<lparr>act_id = ''pot'', act_type = PLEASE, act_cost = None, act_value = 40,
         act_cooldown = 4000, act_targetScene = Some BOSS_OFFICE\<rparr>,
        \<lparr>act_id = ''teach'', act_type = REBEL, act_cost = None, act_value = 35,
         act_cooldown = 3000, act_targetScene = Some BOSS_OFFICE\<rparr>]\<rparr>"
| "JOBS MANAGER =
     \<lparr>job_id = MANAGER, maxFavor = 1000, actions = [
        \<lparr>act_id = ''report'', act_type = PLEASE, act_cost = None, act_value = 80,
         act_cooldown = 4000, act_targetScene = Some BOSS_OFFICE\<rparr>,
        \<lparr>act_id = ''spy'', act_type = PLEASE, act_cost = None, act_value = 100,
         act_cooldown = 6000, act_targetScene = Some BOSS_OFFICE\<rparr>,
        \<lparr>act_id = ''deny'', act_type = REBEL, act_cost = None, act_value = 80,
         act_cooldown = 3000, act_targetScene = Some BOSS_OFFICE\<rparr>]\<rparr>"
| "JOBS DIRECTOR =
     \<lparr>job_id = DIRECTOR, maxFavor = 9999, actions = [
        \<lparr>act_id = ''ipo'', act_type = PLEASE, act_cost = None, act_value = 500,
         act_cooldown = 10000, act_targetScene = Some BOSS_OFFICE\<rparr>,
        \<lparr>act_id = ''coup'', act_type = REBEL, act_cost = None, act_value = 1000,
         act_cooldown = 10000, act_targetScene = Some BOSS_OFFICE\<rparr>]\<rparr>"

fun GET_SCENE_ACTIONS :: "Profession \<Rightarrow> SceneType \<Rightarrow> GameAction list" where
  "GET_SCENE_ACTIONS job scene =
     (if scene = HR then HR_ACTIONS
      else if scene = WORKSTATION then WORK_ACTIONS
      else actions (JOBS job) @ COMMON_VIOLENCE)"


subsection \<open>Catalog properties\<close>

text \<open>The lookup of a skill by its id, as \<open>SKILLS.find(k => k.id === i)\<close>.\<close>

definition skillById :: "string \<Rightarrow> SkillConfig option" where
  "skillById i = find (\<lambda>k. sk_id k = i) SKILLS"

text \<open>The skills of one category, in catalog order.\<close>

definition skillsOf :: "SkillCategory \<Rightarrow> SkillConfig list" where
  "skillsOf c = filter (\<lambda>k. sk_category k = c) SKILLS"

text \<open>A list of skills is a dependency chain when its head has no prerequisite and every
  later skill requires exactly its predecessor.\<close>

fun linkedChain :: "SkillConfig \<Rightarrow> SkillConfig list \<Rightarrow> bool" where
  "linkedChain p [] = True"
| "linkedChain p (k # ks) = (sk_reqId k = Some (sk_id p) \<and> linkedChain k ks)"

fun dependencyChain :: "SkillConfig list \<Rightarrow> bool" where
  "dependencyChain [] = True"
| "dependencyChain (k # ks) = (sk_reqId k = None \<and> linkedChain k ks)"

text \<open>Following the \<open>reqId\<close> links from a skill id reaches a skill without prerequisite within
  the given number of lookups. On a cycle no number of lookups suffices.\<close>

fun reachesRoot :: "nat \<Rightarrow> string \<Rightarrow> bool" where
  "reachesRoot 0 i = False"
| "reachesRoot (Suc n) i =
     (case skillById i of
        None \<Rightarrow> False
      | Some k \<Rightarrow> (case sk_reqId k of None \<Rightarrow> True | Some r \<Rightarrow> reachesRoot n r))"

text \<open>The shape the specification gives a random event: a probability, two to four options,
  each with a feedback text.\<close>

definition eventWellFormed :: "RandomEvent \<Rightarrow> bool" where
  "eventWellFormed e \<longleftrightarrow>
     0 \<le> ev_triggerChance e \<and> ev_triggerChance e \<le> 1
     \<and> 2 \<le> length (ev_options e) \<and> length (ev_options e) \<le> 4
     \<and> (\<forall>opt \<in> set (ev_options e). feedbackText (outcome opt) \<noteq> [])"

text \<open>The whole action catalog: the three shared lists and the action list of every rank.\<close>

definition actionCatalog :: "GameAction set" where
  "actionCatalog =
     set COMMON_VIOLENCE \<union> set WORK_ACTIONS \<union> set HR_ACTIONS \<union> (\<Union>p. set (actions (JOBS p)))"


section \<open>Progression and action-resolution engine\<close>

text \<open>
  Modelled from the spec: the engine itself (the session record, the modifier resolver, the
  cooldown tracker, the event selector, the action resolver and the progression state
  machine) is not among the sources, which hold the catalog and presentation components
  only. The definitions of this section follow sections 3 to 7 of the specification. Where
  the specification names a quantity without fixing it ("a fixed small decay", "a penalty",
  the crit probability, the money floor of an origin, the price of the rescue rule) the
  quantity is a field of \<open>Tuning\<close>, and every theorem holds for every value of it. Percentages
  that the skill and origin descriptions of the catalog state are used as stated there:
  +20% per level of \<open>eff_typing\<close> on WORK, +25% per level of \<open>pol_smile\<close> on PLEASE, +30% per
  level of \<open>sur_gym\<close> on VIOLENCE, -10% work cooldown per level of \<open>eff_coffee\<close>, +100 rage
  ceiling per level of \<open>sur_zen\<close>. Random draws are arguments. Time is an integer count of
  time units. Every call takes the session and returns its result together with the session
  it leaves behind. The operation that spends skill points is not modelled: the skill levels
  of a session are arbitrary in every theorem.
\<close>

text \<open>Modelled from the spec: the error kinds of section 7.\<close>

datatype ActionError =
    UnknownAction | SceneMismatch | OnCooldown | InsufficientFunds
  | SkillPrerequisiteUnmet | SkillAlreadyMaxed | InsufficientSkillPoints
  | SessionTerminated | UnknownEventOrOption

text \<open>Modelled from the spec: the progression state machine of section 4.5 has one state per
  rank and the terminal states WON and FAILED; a session holds its rank and whether the run
  is still going, so that a terminal session remembers the rank at which it ended.\<close>

datatype RunStatus = RUNNING | WON | FAILED

text \<open>Modelled from the spec: the Game Session State of section 3. The cooldown tracker keeps
  the time of last use per key (section 4.2), the key being the action id scoped to the scene;
  \<open>bossHealth\<close> is the notional pool that VIOLENCE acts on (section 4.3, step 6).\<close>

record Session =
  rank :: Profession
  status :: RunStatus
  money :: int
  favor :: int
  rage :: int
  skillPoints :: int
  skillLevels :: "string \<Rightarrow> nat"
  origin :: OriginType
  currentScene :: SceneType
  lastUsed :: "SceneType \<times> string \<rightharpoonup> int"
  activeEvent :: "string option"
  lastActionId :: "string option"
  bossHealth :: int

text \<open>Modelled from the spec: the constants that sections 3 and 4 leave open.\<close>

record Tuning =
  workRageDecay :: int
  pleaseRageIncrease :: int
  rebelFavorPenalty :: int
  talkFavorGain :: int
  critChance :: real
  rescueCost :: int
  moneyFloor :: "OriginType \<Rightarrow> int"
  bossHealthPool :: int

text \<open>Modelled from the spec: the random source, one uniform draw for the crit roll of an
  action and one draw per catalog position for a poll of the event selector (section 4.4).\<close>

record Dice =
  critDraw :: real
  eventDraw :: "nat \<Rightarrow> real"

subsection \<open>Modifier resolver\<close>

text \<open>Modelled from the spec: the level a session holds in a skill, counted only up to the
  skill's own max level (section 4.1, rule 1); an id outside the catalog counts as level 0.\<close>

definition skillLevel :: "Session \<Rightarrow> string \<Rightarrow> int" where
  "skillLevel s i =
     (case find (\<lambda>k. sk_id k = i) SKILLS of
        None \<Rightarrow> 0
      | Some k \<Rightarrow> min (int (skillLevels s i)) (sk_maxLevel k))"

text \<open>Modelled from the spec: section 4.1, rule 1, the percentage bonus of the skill that
  matches the action category.\<close>

fun skillBonus :: "ActionType \<Rightarrow> Session \<Rightarrow> real" where
  "skillBonus WORK s = 1 + 20 / 100 * of_int (skillLevel s ''eff_typing'')"
| "skillBonus PLEASE s = 1 + 25 / 100 * of_int (skillLevel s ''pol_smile'')"
| "skillBonus VIOLENCE s = 1 + 30 / 100 * of_int (skillLevel s ''sur_gym'')"
| "skillBonus REBEL s = 1"
| "skillBonus TALK s = 1"

text \<open>Modelled from the spec: section 4.1, rule 2, the origin passive on the value of an
  action. SOCIALITE doubles the favor gained from NPC goodwill (the TALK category). The
  scenario of section 8 fixes the favor of \<open>work_hard\<close> under GRINDER at the skill-modified
  value alone, so the passive of GRINDER leaves the favor of an action as it is; the passive
  of HEIR is the rescue rule of the progression state machine.\<close>

fun originMultiplier :: "OriginType \<Rightarrow> ActionType \<Rightarrow> real" where
  "originMultiplier SOCIALITE TALK = 2"
| "originMultiplier _ _ = 1"

text \<open>Modelled from the spec: section 4.1, rule 3, the crit roll of a PLEASE action once the
  top-tier skill \<open>pol_master\<close> is unlocked; a draw below the crit probability doubles.\<close>

definition critMultiplier :: "Tuning \<Rightarrow> Dice \<Rightarrow> ActionType \<Rightarrow> Session \<Rightarrow> real" where
  "critMultiplier tun dice cat s =
     (if cat = PLEASE \<and> 1 \<le> skillLevel s ''pol_master'' \<and> critDraw dice < critChance tun
      then 2 else 1)"

text \<open>Modelled from the spec: the contract \<open>resolve(category, baseValue, sessionState)\<close> of
  section 4.1: skill percentage, then origin passive, then crit doubling, rounded down.\<close>

definition resolve :: "Tuning \<Rightarrow> Dice \<Rightarrow> ActionType \<Rightarrow> int \<Rightarrow> Session \<Rightarrow> int" where
  "resolve tun dice cat baseValue s =
     \<lfloor>of_int baseValue * skillBonus cat s * originMultiplier (origin s) cat
        * critMultiplier tun dice cat s\<rfloor>"

subsection \<open>Cooldown tracker\<close>

text \<open>Modelled from the spec: section 4.2, the cooldown key is the action id scoped to the
  current scene.\<close>

definition cooldownKey :: "Session \<Rightarrow> GameAction \<Rightarrow> SceneType \<times> string" where
  "cooldownKey s a = (currentScene s, act_id a)"

text \<open>Modelled from the spec: section 4.2, the EFFICIENCY skill \<open>eff_coffee\<close> shortens the
  cooldown of the WORK category by 10% per level, never below 1 time unit.\<close>

definition cooldownDuration :: "Session \<Rightarrow> GameAction \<Rightarrow> int" where
  "cooldownDuration s a =
     (if act_type a = WORK
      then max 1 (act_cooldown a * (100 - 10 * skillLevel s ''eff_coffee'') div 100)
      else act_cooldown a)"

text \<open>Modelled from the spec: section 4.2, the remaining cooldown is
  \<open>cooldownDuration - (now - lastUsed)\<close>, clamped to at least 0; an action never used has none.\<close>

definition cooldownRemaining :: "Session \<Rightarrow> GameAction \<Rightarrow> int \<Rightarrow> int" where
  "cooldownRemaining s a now =
     (case lastUsed s (cooldownKey s a) of
        None \<Rightarrow> 0
      | Some t \<Rightarrow> max 0 (cooldownDuration s a - (now - t)))"

text \<open>Modelled from the spec: the contract \<open>isReady(actionId, now)\<close> of section 4.2.\<close>

definition isReady :: "Session \<Rightarrow> GameAction \<Rightarrow> int \<Rightarrow> bool" where
  "isReady s a now \<longleftrightarrow> cooldownRemaining s a now = 0"

text \<open>Modelled from the spec: the contract \<open>markUsed(actionId, now)\<close> of section 4.2.\<close>

definition markUsed :: "GameAction \<Rightarrow> int \<Rightarrow> Session \<Rightarrow> Session" where
  "markUsed a now s = s\<lparr>lastUsed := (lastUsed s)(cooldownKey s a \<mapsto> now)\<rparr>"

subsection \<open>Meters and progression\<close>

text \<open>Modelled from the spec: section 3, the rage ceiling is 100 plus the skill-granted
  increase, +100 per level of \<open>sur_zen\<close>.\<close>

definition rageCeiling :: "Session \<Rightarrow> int" where
  "rageCeiling s = 100 + 100 * skillLevel s ''sur_zen''"

text \<open>Modelled from the spec: the favor ceiling of the current rank (section 3, JobConfig).\<close>

definition favorCeiling :: "Session \<Rightarrow> int" where
  "favorCeiling s = maxFavor (JOBS (rank s))"

text \<open>Modelled from the spec: section 4.3, step 7, favor and rage are clamped to their bounds.\<close>

definition clampMeters :: "Session \<Rightarrow> Session" where
  "clampMeters s =
     s\<lparr>favor := max 0 (min (favorCeiling s) (favor s)),
       rage := max 0 (min (rageCeiling s) (rage s))\<rparr>"

text \<open>Modelled from the spec: section 4.5, the ranks in their order; the final rank has no
  successor.\<close>

fun nextRank :: "Profession \<Rightarrow> Profession option" where
  "nextRank INTERN = Some JUNIOR"
| "nextRank JUNIOR = Some SENIOR"
| "nextRank SENIOR = Some MANAGER"
| "nextRank MANAGER = Some DIRECTOR"
| "nextRank DIRECTOR = None"

text \<open>Modelled from the spec: the rescue rule of sections 3 and 4.5, granted by the origin HEIR
  (money for rage): when rage stands at the ceiling and the price can be paid without
  passing the origin's money floor, the price is paid and rage is capped just below the
  ceiling.\<close>

definition rescue :: "Tuning \<Rightarrow> Session \<Rightarrow> Session" where
  "rescue tun s =
     (if origin s = HEIR \<and> rage s = rageCeiling s
         \<and> moneyFloor tun (origin s) \<le> money s - rescueCost tun
      then s\<lparr>money := money s - rescueCost tun, rage := rageCeiling s - 1\<rparr>
      else s)"

text \<open>Modelled from the spec: an action is shared across scenes when it declares no target
  scene; of the catalog these are the actions of \<open>COMMON_VIOLENCE\<close>.\<close>

definition sharedAcrossScenes :: "string \<Rightarrow> bool" where
  "sharedAcrossScenes i \<longleftrightarrow> i \<in> set (map act_id COMMON_VIOLENCE)"

text \<open>Modelled from the spec: section 4.5, promotion advances the rank, resets favor to 0 (the
  policy chosen of the two the specification allows), keeps rage, and resets the cooldown
  timers of the actions that are not shared across scenes.\<close>

definition promote :: "Profession \<Rightarrow> Session \<Rightarrow> Session" where
  "promote r s =
     s\<lparr>rank := r, favor := 0,
       lastUsed := (\<lambda>k. if sharedAcrossScenes (snd k) then lastUsed s k else None)\<rparr>"

text \<open>Modelled from the spec: the end of a run (sections 3 and 4.5). The session enters the
  terminal state and accepts no further action; the run being over, its cooldown timers are
  discarded with it.\<close>

definition endRun :: "RunStatus \<Rightarrow> Session \<Rightarrow> Session" where
  "endRun st s = s\<lparr>status := st, lastUsed := Map.empty\<rparr>"

text \<open>Modelled from the spec: the transitions of section 4.5, evaluated on clamped meters.
  Favor at the ceiling of the final rank wins the run; otherwise the rescue rule is applied
  and rage at the ceiling fails the run; otherwise favor at the ceiling promotes.\<close>

definition evaluateProgress :: "Tuning \<Rightarrow> Session \<Rightarrow> Session" where
  "evaluateProgress tun s =
     (if favor s = favorCeiling s \<and> nextRank (rank s) = None then endRun WON s
      else
        (let s1 = rescue tun s in
         if rage s1 = rageCeiling s1 then endRun FAILED s1
         else if favor s1 = favorCeiling s1 then
           (case nextRank (rank s1) of None \<Rightarrow> s1 | Some r \<Rightarrow> promote r s1)
         else s1))"

text \<open>Modelled from the spec: the StateDelta of sections 4.3 and 6, by how much a call changed
  each resource meter of the session (money, favor, rage, skill points).\<close>

record StateDelta =
  d_money :: int
  d_favor :: int
  d_rage :: int
  d_skillPoints :: int

definition stateDelta :: "Session \<Rightarrow> Session \<Rightarrow> StateDelta" where
  "stateDelta s s' =
     \<lparr>d_money = money s' - money s, d_favor = favor s' - favor s,
      d_rage = rage s' - rage s, d_skillPoints = skillPoints s' - skillPoints s\<rparr>"

subsection \<open>Event selector\<close>

text \<open>Modelled from the spec: section 4.4, one draw per catalog position; the first event in
  catalog order whose trigger probability exceeds its draw is selected.\<close>

fun firstFiring :: "(nat \<Rightarrow> real) \<Rightarrow> nat \<Rightarrow> RandomEvent list \<Rightarrow> RandomEvent option" where
  "firstFiring draw k [] = None"
| "firstFiring draw k (e # es) =
     (if draw k < ev_triggerChance e then Some e else firstFiring draw (Suc k) es)"

text \<open>Modelled from the spec: the contract \<open>poll(sessionState, now)\<close> of section 4.4. A poll is
  suppressed while an event is active; a selected event becomes the active event.\<close>

definition pollForEvent :: "Dice \<Rightarrow> int \<Rightarrow> Session \<Rightarrow> RandomEvent option \<times> Session" where
  "pollForEvent dice now s =
     (if activeEvent s \<noteq> None then (None, s)
      else
        (case firstFiring (eventDraw dice) 0 RANDOM_EVENTS of
           None \<Rightarrow> (None, s)
         | Some e \<Rightarrow> (Some e, s\<lparr>activeEvent := Some (ev_id e)\<rparr>)))"

text \<open>Modelled from the spec: the deltas of an outcome record added to the session; an absent
  delta changes nothing and the skill-point pool stays non-negative (section 3).\<close>

definition applyOutcome :: "Outcome \<Rightarrow> Session \<Rightarrow> Session" where
  "applyOutcome oc s =
     s\<lparr>money := money s + (case o_money oc of None \<Rightarrow> 0 | Some d \<Rightarrow> d),
       favor := favor s + (case o_favor oc of None \<Rightarrow> 0 | Some d \<Rightarrow> d),
       rage := rage s + (case o_rage oc of None \<Rightarrow> 0 | Some d \<Rightarrow> d),
       skillPoints := max 0 (skillPoints s + (case o_sp oc of None \<Rightarrow> 0 | Some d \<Rightarrow> d))\<rparr>"

text \<open>Modelled from the spec: \<open>resolveEventOption(eventId, index)\<close> of sections 4.4 and 6. A
  terminal session fails with \<open>SessionTerminated\<close> (section 4.5); an event id outside the
  catalog or an index outside the event's options fails with \<open>UnknownEventOrOption\<close>;
  otherwise the outcome goes through the clamp and progression path of the action resolver
  and the active-event lock is cleared. The result comes with the session the call leaves.\<close>

definition resolveEventOption ::
  "Tuning \<Rightarrow> string \<Rightarrow> int \<Rightarrow> Session \<Rightarrow> (ActionError + StateDelta) \<times> Session" where
  "resolveEventOption tun eventId idx s =
     (if status s \<noteq> RUNNING then (Inl SessionTerminated, s)
      else
        (case find (\<lambda>e. ev_id e = eventId) RANDOM_EVENTS of
           None \<Rightarrow> (Inl UnknownEventOrOption, s)
         | Some e \<Rightarrow>
             if 0 \<le> idx \<and> idx < int (length (ev_options e)) then
               (let s' = (evaluateProgress tun
                            (clampMeters (applyOutcome (outcome (ev_options e ! nat idx)) s)))
                         \<lparr>activeEvent := None\<rparr>
                in (Inr (stateDelta s s'), s'))
             else (Inl UnknownEventOrOption, s)))"

subsection \<open>Action resolver\<close>

text \<open>Modelled from the spec: section 4.3, step 1, the action definitions a session can name:
  those the catalog offers its rank in any of the three scenes.\<close>

definition availableActions :: "Profession \<Rightarrow> GameAction list" where
  "availableActions r =
     GET_SCENE_ACTIONS r BOSS_OFFICE @ GET_SCENE_ACTIONS r WORKSTATION @ GET_SCENE_ACTIONS r HR"

text \<open>Modelled from the spec: section 4.3, step 1, the lookup of the action definition by
  its id.\<close>

definition lookupAction :: "Profession \<Rightarrow> string \<Rightarrow> GameAction option" where
  "lookupAction r i = find (\<lambda>a. act_id a = i) (availableActions r)"

text \<open>Modelled from the spec: section 4.3, step 2, an action that declares a target scene is
  valid in that scene only.\<close>

definition sceneMatches :: "GameAction \<Rightarrow> Session \<Rightarrow> bool" where
  "sceneMatches a s \<longleftrightarrow>
     (case act_targetScene a of None \<Rightarrow> True | Some t \<Rightarrow> t = currentScene s)"

text \<open>Modelled from the spec: section 4.3, step 4, a money cost is affordable when paying it
  does not take money below the floor the origin allows.\<close>

definition affordable :: "Tuning \<Rightarrow> GameAction \<Rightarrow> Session \<Rightarrow> bool" where
  "affordable tun a s \<longleftrightarrow>
     (case act_cost a of None \<Rightarrow> True
      | Some c \<Rightarrow> moneyFloor tun (origin s) \<le> money s - c)"

text \<open>Modelled from the spec: section 4.3, steps 5 and 6, the effects by category. TALK gives
  the small favor gain (under the origin passive) and delegates to the event selector.\<close>

definition applyEffects :: "Tuning \<Rightarrow> Dice \<Rightarrow> GameAction \<Rightarrow> int \<Rightarrow> Session \<Rightarrow> Session" where
  "applyEffects tun dice a now s =
     (let v = resolve tun dice (act_type a) (act_value a) s in
      case act_type a of
        WORK \<Rightarrow> s\<lparr>favor := favor s + v, rage := rage s - workRageDecay tun\<rparr>
      | PLEASE \<Rightarrow> s\<lparr>favor := favor s + v, rage := rage s + pleaseRageIncrease tun\<rparr>
      | REBEL \<Rightarrow> s\<lparr>favor := favor s - rebelFavorPenalty tun, rage := rage s - v\<rparr>
      | TALK \<Rightarrow>
          snd (pollForEvent dice now
                 (s\<lparr>favor := favor s + resolve tun dice TALK (talkFavorGain tun) s\<rparr>))
      | VIOLENCE \<Rightarrow>
          s\<lparr>money := money s - (case act_cost a of None \<Rightarrow> 0 | Some c \<Rightarrow> c),
            bossHealth := bossHealth s - v, rage := rage s - v\<rparr>)"

text \<open>Modelled from the spec: \<open>resolveAction(actionId, now)\<close>, behind the guard of section
  4.5 that a terminal session accepts no call. The four checks of section 4.3 come in their
  order, each returning its error with the session it found. Then the effects are applied
  and clamped and the action is marked used; with these committed, the progression state
  machine evaluates the transition (section 2, control flow), so that a promotion resets and
  the end of the run discards the timer of the action that caused it along with the others.
  The result is the StateDelta, with the session the call leaves.\<close>

definition resolveAction ::
  "Tuning \<Rightarrow> Dice \<Rightarrow> string \<Rightarrow> int \<Rightarrow> Session \<Rightarrow> (ActionError + StateDelta) \<times> Session" where
  "resolveAction tun dice actionId now s =
     (if status s \<noteq> RUNNING then (Inl SessionTerminated, s)
      else
        (case lookupAction (rank s) actionId of
           None \<Rightarrow> (Inl UnknownAction, s)
         | Some a \<Rightarrow>
             if \<not> sceneMatches a s then (Inl SceneMismatch, s)
             else if \<not> isReady s a now then (Inl OnCooldown, s)
             else if \<not> affordable tun a s then (Inl InsufficientFunds, s)
             else
               (let s' = evaluateProgress tun
                           ((markUsed a now (clampMeters (applyEffects tun dice a now s)))
                            \<lparr>lastActionId := Some actionId\<rparr>)
                in (Inr (stateDelta s s'), s'))))"

subsection \<open>Sessions and runs\<close>

text \<open>Modelled from the spec: \<open>selectOrigin(originId)\<close> creates the session, seeded with the base
  money of the origin, at the first rank with empty meters; the run starts in the HR scene,
  where the catalog places the onboarding action.\<close>

definition selectOrigin :: "Tuning \<Rightarrow> OriginType \<Rightarrow> Session" where
  "selectOrigin tun og =
     \<lparr>rank = INTERN, status = RUNNING, money = bs_money (baseStats (ORIGINS og)),
      favor = 0, rage = 0, skillPoints = 0, skillLevels = (\<lambda>i. 0), origin = og,
      currentScene = HR, lastUsed = Map.empty, activeEvent = None, lastActionId = None,
      bossHealth = bossHealthPool tun\<rparr>"

text \<open>Modelled from the spec: \<open>changeScene(scene)\<close> of section 6 moves a running session to
  the scene.\<close>

definition changeScene :: "SceneType \<Rightarrow> Session \<Rightarrow> (ActionError + StateDelta) \<times> Session" where
  "changeScene sc s =
     (if status s \<noteq> RUNNING then (Inl SessionTerminated, s)
      else (Inr (stateDelta s (s\<lparr>currentScene := sc\<rparr>)), s\<lparr>currentScene := sc\<rparr>))"

text \<open>Modelled from the spec: the inbound calls of section 6 as commands of the driver.\<close>

datatype Command =
    ResolveAction Dice string int
  | PollForEvent Dice int
  | ResolveEventOption string int
  | ChangeScene SceneType

text \<open>Modelled from the spec: one call of the driver (section 5), which goes on with the
  session the call leaves, and a sequence of calls.\<close>

fun exec :: "Tuning \<Rightarrow> Command \<Rightarrow> Session \<Rightarrow> Session" where
  "exec tun (ResolveAction dice actionId now) s = snd (resolveAction tun dice actionId now s)"
| "exec tun (PollForEvent dice now) s = snd (pollForEvent dice now s)"
| "exec tun (ResolveEventOption eventId idx) s = snd (resolveEventOption tun eventId idx s)"
| "exec tun (ChangeScene sc) s = snd (changeScene sc s)"

fun run :: "Tuning \<Rightarrow> Command list \<Rightarrow> Session \<Rightarrow> Session" where
  "run tun [] s = s"
| "run tun (c # cs) s = run tun cs (exec tun c s)"


subsection \<open>Engine properties and sample sessions\<close>

text \<open>Both meters within their bounds: favor in \<open>[0, ceiling of the current rank]\<close>, rage in
  \<open>[0, rageCeiling]\<close>.\<close>

definition metersInBounds :: "Session \<Rightarrow> bool" where
  "metersInBounds s \<longleftrightarrow>
     0 \<le> favor s \<and> favor s \<le> favorCeiling s \<and> 0 \<le> rage s \<and> rage s \<le> rageCeiling s"

text \<open>The number of steps of a run at which the session enters WON.\<close>

fun wonEntries :: "Tuning \<Rightarrow> Command list \<Rightarrow> Session \<Rightarrow> nat" where
  "wonEntries tun [] s = 0"
| "wonEntries tun (c # cs) s =
     (if status s \<noteq> WON \<and> status (exec tun c s) = WON then 1 else 0)
     + wonEntries tun cs (exec tun c s)"

text \<open>The commands that call \<open>resolveEventOption\<close>.\<close>

fun isOptionCommand :: "Command \<Rightarrow> bool" where
  "isOptionCommand (ResolveEventOption eventId idx) = True"
| "isOptionCommand _ = False"


text \<open>Sample values of the open constants and of the random source, for concrete runs:
  \<open>quietDice\<close> never fires an event nor a crit, \<open>loudDice\<close> always does.\<close>

definition sampleTuning :: Tuning where
  "sampleTuning =
     \<lparr>workRageDecay = 5, pleaseRageIncrease = 20, rebelFavorPenalty = 5, talkFavorGain = 2,
      critChance = 1 / 2, rescueCost = 1000, moneyFloor = (\<lambda>og. - 100000),
      bossHealthPool = 1000\<rparr>"

definition quietDice :: Dice where
  "quietDice = \<lparr>critDraw = 1, eventDraw = (\<lambda>k. 1)\<rparr>"

definition loudDice :: Dice where
  "loudDice = \<lparr>critDraw = 0, eventDraw = (\<lambda>k. 0)\<rparr>"

text \<open>The scenario of the specification: origin GRINDER, at the workstation, \<open>eff_typing\<close> at
  level 2.\<close>

definition grinderAtDesk :: Session where
  "grinderAtDesk =
     (selectOrigin sampleTuning GRINDER)
       \<lparr>currentScene := WORKSTATION, skillLevels := (\<lambda>i. 0)(''eff_typing'' := 2)\<rparr>"


text \<open>A director one step from the ceiling 9999 of the final rank.\<close>

definition directorAtTheTop :: Session where
  "directorAtTheTop =
     (selectOrigin sampleTuning SOCIALITE)
       \<lparr>rank := DIRECTOR, favor := 9950, currentScene := BOSS_OFFICE\<rparr>"

text \<open>A session with an event pending: the poll of a fresh session under \<open>loudDice\<close>.\<close>

definition eventPending :: Session where
  "eventPending = snd (pollForEvent loudDice 0 (selectOrigin sampleTuning HEIR))"



text \<open>The scenario session after one call of \<open>work_hard\<close> at time 0.\<close>

definition workedOnce :: Session where
  "workedOnce = exec sampleTuning (ResolveAction quietDice ''work_hard'' 0) grinderAtDesk"

text \<open>The director after the call that takes favor to the ceiling of the final rank.\<close>

definition retired :: Session where
  "retired = exec sampleTuning (ResolveAction quietDice ''ipo'' 0) directorAtTheTop"

text \<open>The pending event resolved by its first option.\<close>

definition eventResolved :: Session where
  "eventResolved = exec sampleTuning (ResolveEventOption ''evt_boss_secret'' 0) eventPending"

text \<open>Calls that leave a pending event alone: a scene change, a TALK action and a poll, all
  under \<open>loudDice\<close>.\<close>

definition busyCalls :: "Command list" where
  "busyCalls =
     [ChangeScene WORKSTATION, ResolveAction loudDice ''gossip'' 10, PollForEvent loudDice 20]"


section \<open>Theorems about the catalog\<close>

text \<open>
  Claim C1, as amended. Every prerequisite reference \<open>reqId\<close> of \<open>SKILLS\<close> resolves to a
  skill of the catalog. Every \<open>npcRole\<close> of \<open>RANDOM_EVENTS\<close> is either \<open>'BOSS'\<close> or a key of the
  \<open>NPCS\<close> table; the role \<open>'BOSS'\<close> has no entry there (the boss is described by the job of
  the rank, and \<open>OfficeScene.tsx\<close> falls back to the role \<open>'BOSS'\<close> when no NPC is given).
\<close>

theorem catalog_references_resolve:
  "(\<forall>k \<in> set SKILLS. \<forall>r. sk_reqId k = Some r \<longrightarrow> skillById r \<noteq> None)
   \<and> (\<forall>e \<in> set RANDOM_EVENTS. ev_npcRole e = ''BOSS'' \<or> NPCS_lookup (ev_npcRole e) \<noteq> None)
   \<and> NPCS_lookup ''BOSS'' = None"
  by (simp add: SKILLS_def skillById_def RANDOM_EVENTS_def NPCS_lookup_def NPCS_def
      evt_boss_secret_def evt_betrayal_def evt_offer_def evt_blame_def evt_coffee_def)

theorem catalog_references_resolve_witness:
  "SKILLS ! 1 \<in> set SKILLS \<and> sk_reqId (SKILLS ! 1) = Some ''eff_typing''
   \<and> skillById ''eff_typing'' \<noteq> None
   \<and> evt_coffee \<in> set RANDOM_EVENTS \<and> ev_npcRole evt_coffee \<noteq> ''BOSS''
   \<and> NPCS_lookup (ev_npcRole evt_coffee) \<noteq> None"
proof -
  have k: "SKILLS ! 1 \<in> set SKILLS" and r: "sk_reqId (SKILLS ! 1) = Some ''eff_typing''"
    by (simp_all add: SKILLS_def)
  have e: "evt_coffee \<in> set RANDOM_EVENTS" and b: "ev_npcRole evt_coffee \<noteq> ''BOSS''"
    by (simp_all add: RANDOM_EVENTS_def evt_coffee_def)
  from catalog_references_resolve k r e b show ?thesis by blast
qed

text \<open>
  Claim C1, as stated, fails: the event \<open>evt_boss_secret\<close> of \<open>RANDOM_EVENTS\<close> names the role
  \<open>'BOSS'\<close>, and \<open>NPCS\<close> has the keys \<open>'HR'\<close> and \<open>'COLLEAGUE'\<close> only.
\<close>

theorem boss_role_unresolved:
  "evt_boss_secret \<in> set RANDOM_EVENTS \<and> NPCS_lookup (ev_npcRole evt_boss_secret) = None"
  by (simp add: RANDOM_EVENTS_def NPCS_lookup_def NPCS_def evt_boss_secret_def)

text \<open>
  Claim C7. Every entry of \<open>RANDOM_EVENTS\<close> has a trigger probability in the closed interval
  \<open>[0, 1]\<close> and between 2 and 4 options, and every option carries an outcome record (optional
  signed deltas to money, favor, rage and skill points, by the type \<open>Outcome\<close>) with a
  feedback text.
\<close>

theorem random_events_well_formed:
  "\<forall>e \<in> set RANDOM_EVENTS. eventWellFormed e"
  by (simp add: RANDOM_EVENTS_def eventWellFormed_def evt_boss_secret_def evt_betrayal_def
      evt_offer_def evt_blame_def evt_coffee_def)

theorem random_events_well_formed_witness:
  "evt_offer \<in> set RANDOM_EVENTS \<and> ev_triggerChance evt_offer = 1 / 10
   \<and> 0 \<le> ev_triggerChance evt_offer \<and> ev_triggerChance evt_offer \<le> 1
   \<and> length (ev_options evt_offer) = 3
   \<and> 2 \<le> length (ev_options evt_offer) \<and> length (ev_options evt_offer) \<le> 4
   \<and> ev_options evt_offer ! 1 \<in> set (ev_options evt_offer)
   \<and> o_rage (outcome (ev_options evt_offer ! 1)) = Some 20
   \<and> o_favor (outcome (ev_options evt_offer ! 1)) = Some (- 10)
   \<and> feedbackText (outcome (ev_options evt_offer ! 1)) \<noteq> []"
proof -
  have e: "evt_offer \<in> set RANDOM_EVENTS"
    by (simp add: RANDOM_EVENTS_def)
  have o: "ev_options evt_offer ! 1 \<in> set (ev_options evt_offer)"
    and v: "ev_triggerChance evt_offer = 1 / 10" "length (ev_options evt_offer) = 3"
      "o_rage (outcome (ev_options evt_offer ! 1)) = Some 20"
      "o_favor (outcome (ev_options evt_offer ! 1)) = Some (- 10)"
    by (simp_all add: evt_offer_def)
  from random_events_well_formed e have "eventWellFormed evt_offer"
    by blast
  then have "0 \<le> ev_triggerChance evt_offer \<and> ev_triggerChance evt_offer \<le> 1
      \<and> 2 \<le> length (ev_options evt_offer) \<and> length (ev_options evt_offer) \<le> 4
      \<and> feedbackText (outcome (ev_options evt_offer ! 1)) \<noteq> []"
    using o unfolding eventWellFormed_def by blast
  with e o v show ?thesis by blast
qed

text \<open>
  Claim C8. Every entry of \<open>SKILLS\<close> has \<open>maxLevel\<close> between 1 and 5. Every skill that declares
  a \<open>reqId\<close> names a skill of its own category. The links form a strict chain within each
  category: ids are distinct, no skill is the prerequisite of two skills, following the links
  from any skill reaches a skill without prerequisite (so there is no cycle), and the skills of
  each category, in catalog order, start with a skill without prerequisite and continue with
  skills that each require their predecessor.
\<close>

theorem skills_form_chains:
  "(\<forall>k \<in> set SKILLS. 1 \<le> sk_maxLevel k \<and> sk_maxLevel k \<le> 5)
   \<and> (\<forall>k \<in> set SKILLS. \<forall>r. sk_reqId k = Some r \<longrightarrow>
         (\<exists>p. skillById r = Some p \<and> sk_category p = sk_category k))
   \<and> distinct (map sk_id SKILLS)
   \<and> distinct (List.map_filter sk_reqId SKILLS)
   \<and> (\<forall>k \<in> set SKILLS. reachesRoot (length SKILLS) (sk_id k))
   \<and> (\<forall>c. dependencyChain (skillsOf c))"
proof -
  have bounds: "\<forall>k \<in> set SKILLS. 1 \<le> sk_maxLevel k \<and> sk_maxLevel k \<le> 5"
    by (simp add: SKILLS_def)
  have same: "\<forall>k \<in> set SKILLS. \<forall>r. sk_reqId k = Some r \<longrightarrow>
         (\<exists>p. skillById r = Some p \<and> sk_category p = sk_category k)"
    by (simp add: SKILLS_def skillById_def)
  have ids: "distinct (map sk_id SKILLS)"
    by (simp add: SKILLS_def)
  have reqs: "distinct (List.map_filter sk_reqId SKILLS)"
    by (simp add: SKILLS_def List.map_filter_simps)
  have acyclic: "\<forall>k \<in> set SKILLS. reachesRoot (length SKILLS) (sk_id k)"
    by (simp add: SKILLS_def skillById_def eval_nat_numeral)
  have chains: "dependencyChain (skillsOf c)" for c
    by (cases c) (simp_all add: skillsOf_def SKILLS_def)
  from bounds same ids reqs acyclic chains show ?thesis by blast
qed

theorem skills_form_chains_witness:
  "SKILLS ! 2 \<in> set SKILLS \<and> sk_id (SKILLS ! 2) = ''eff_auto''
   \<and> sk_maxLevel (SKILLS ! 2) = 1 \<and> sk_reqId (SKILLS ! 2) = Some ''eff_coffee''
   \<and> (\<exists>p. skillById ''eff_coffee'' = Some p \<and> sk_category p = sk_category (SKILLS ! 2))
   \<and> reachesRoot (length SKILLS) ''eff_auto''
   \<and> map sk_id (skillsOf EFFICIENCY) = [''eff_typing'', ''eff_coffee'', ''eff_auto'']
   \<and> dependencyChain (skillsOf EFFICIENCY)"
proof -
  have k: "SKILLS ! 2 \<in> set SKILLS" and i: "sk_id (SKILLS ! 2) = ''eff_auto''"
    and m: "sk_maxLevel (SKILLS ! 2) = 1" and r: "sk_reqId (SKILLS ! 2) = Some ''eff_coffee''"
    by (simp_all add: SKILLS_def)
  have l: "map sk_id (skillsOf EFFICIENCY) = [''eff_typing'', ''eff_coffee'', ''eff_auto'']"
    by (simp add: skillsOf_def SKILLS_def)
  from skills_form_chains k r
  have "\<exists>p. skillById ''eff_coffee'' = Some p \<and> sk_category p = sk_category (SKILLS ! 2)"
    by blast
  moreover from skills_form_chains k i have "reachesRoot (length SKILLS) ''eff_auto''"
    by metis
  moreover from skills_form_chains have "dependencyChain (skillsOf EFFICIENCY)"
    by blast
  ultimately show ?thesis using k i m r l by simp
qed

text \<open>
  Claim C9. \<open>GET_SCENE_ACTIONS\<close> returns \<open>HR_ACTIONS\<close> for the scene \<open>'HR'\<close> and \<open>WORK_ACTIONS\<close>
  for \<open>'WORKSTATION'\<close>, whatever the profession, and for any other scene the action list of
  the profession followed by the four actions of \<open>COMMON_VIOLENCE\<close>; every returned action
  that declares a target scene declares the scene queried.
\<close>

theorem scene_actions:
  "GET_SCENE_ACTIONS job HR = HR_ACTIONS
   \<and> GET_SCENE_ACTIONS job WORKSTATION = WORK_ACTIONS
   \<and> (scene \<noteq> HR \<and> scene \<noteq> WORKSTATION \<longrightarrow>
        GET_SCENE_ACTIONS job scene = actions (JOBS job) @ COMMON_VIOLENCE)
   \<and> length COMMON_VIOLENCE = 4
   \<and> (\<forall>a \<in> set (GET_SCENE_ACTIONS job scene).
        \<forall>t. act_targetScene a = Some t \<longrightarrow> t = scene)"
proof -
  have tgt: "\<forall>a \<in> set (GET_SCENE_ACTIONS job scene).
      \<forall>t. act_targetScene a = Some t \<longrightarrow> t = scene"
    by (cases scene; cases job) (simp_all add: HR_ACTIONS_def WORK_ACTIONS_def COMMON_VIOLENCE_def)
  show ?thesis using tgt by (simp add: COMMON_VIOLENCE_def)
qed

theorem scene_actions_witness:
  "BOSS_OFFICE \<noteq> HR \<and> BOSS_OFFICE \<noteq> WORKSTATION
   \<and> GET_SCENE_ACTIONS SENIOR BOSS_OFFICE = actions (JOBS SENIOR) @ COMMON_VIOLENCE
   \<and> map act_id (GET_SCENE_ACTIONS SENIOR BOSS_OFFICE)
       = [''pot'', ''teach'', ''punch'', ''kick'', ''scold'', ''combo'']
   \<and> hd (GET_SCENE_ACTIONS SENIOR BOSS_OFFICE) \<in> set (GET_SCENE_ACTIONS SENIOR BOSS_OFFICE)
   \<and> act_targetScene (hd (GET_SCENE_ACTIONS SENIOR BOSS_OFFICE)) = Some BOSS_OFFICE"
proof -
  have ne: "BOSS_OFFICE \<noteq> HR \<and> BOSS_OFFICE \<noteq> WORKSTATION"
    by simp
  with scene_actions [of SENIOR BOSS_OFFICE]
  have eq: "GET_SCENE_ACTIONS SENIOR BOSS_OFFICE = actions (JOBS SENIOR) @ COMMON_VIOLENCE"
    by blast
  have ids: "map act_id (actions (JOBS SENIOR) @ COMMON_VIOLENCE)
       = [''pot'', ''teach'', ''punch'', ''kick'', ''scold'', ''combo'']"
    by (simp add: COMMON_VIOLENCE_def)
  have hd: "act_targetScene (hd (actions (JOBS SENIOR) @ COMMON_VIOLENCE)) = Some BOSS_OFFICE"
    by simp
  have mem: "hd (actions (JOBS SENIOR) @ COMMON_VIOLENCE)
      \<in> set (actions (JOBS SENIOR) @ COMMON_VIOLENCE)"
    by simp
  from ne ids hd mem show ?thesis unfolding eq by blast
qed

text \<open>
  Claim C10. Across the whole action catalog (\<open>COMMON_VIOLENCE\<close>, \<open>WORK_ACTIONS\<close>,
  \<open>HR_ACTIONS\<close> and the action list of every rank of \<open>JOBS\<close>) an action declares a money cost
  if and only if its type is VIOLENCE, and every declared cost is strictly positive.
\<close>

theorem violence_iff_cost:
  "\<forall>a \<in> actionCatalog.
     (act_cost a \<noteq> None \<longleftrightarrow> act_type a = VIOLENCE) \<and> (\<forall>c. act_cost a = Some c \<longrightarrow> 0 < c)"
proof -
  have jobs: "\<forall>a \<in> set (actions (JOBS p)). act_cost a = None \<and> act_type a \<noteq> VIOLENCE" for p
    by (cases p) simp_all
  have common: "\<forall>a \<in> set COMMON_VIOLENCE.
      act_type a = VIOLENCE \<and> (\<exists>c. act_cost a = Some c \<and> 0 < c)"
    by (simp add: COMMON_VIOLENCE_def)
  have work: "\<forall>a \<in> set WORK_ACTIONS. act_cost a = None \<and> act_type a \<noteq> VIOLENCE"
    by (simp add: WORK_ACTIONS_def)
  have hr: "\<forall>a \<in> set HR_ACTIONS.
      (act_cost a \<noteq> None \<longleftrightarrow> act_type a = VIOLENCE) \<and> (\<forall>c. act_cost a = Some c \<longrightarrow> 0 < c)"
    by (simp add: HR_ACTIONS_def)
  show ?thesis
    unfolding actionCatalog_def using jobs common work hr by fastforce
qed

theorem violence_iff_cost_witness:
  "HR_ACTIONS ! 2 \<in> actionCatalog \<and> act_id (HR_ACTIONS ! 2) = ''argue_hr''
   \<and> act_cost (HR_ACTIONS ! 2) = Some 50 \<and> act_type (HR_ACTIONS ! 2) = VIOLENCE
   \<and> (0::int) < 50"
proof -
  have a: "HR_ACTIONS ! 2 \<in> actionCatalog"
    by (simp add: actionCatalog_def HR_ACTIONS_def)
  have c: "act_cost (HR_ACTIONS ! 2) = Some 50" and i: "act_id (HR_ACTIONS ! 2) = ''argue_hr''"
    by (simp_all add: HR_ACTIONS_def)
  from violence_iff_cost a c have "act_type (HR_ACTIONS ! 2) = VIOLENCE \<and> (0::int) < 50"
    by blast
  with a c i show ?thesis by simp
qed


section \<open>Theorems about the engine\<close>

subsection \<open>Frame lemmas\<close>

lemma surZen_level: "skillLevel s ''sur_zen'' = min (int (skillLevels s ''sur_zen'')) 5"
  by (simp add: skillLevel_def SKILLS_def)

lemma rageCeiling_ge: "100 \<le> rageCeiling s"
  by (simp add: rageCeiling_def surZen_level)

lemma maxFavor_pos: "0 < maxFavor (JOBS r)"
  by (cases r) simp_all

lemma favorCeiling_pos: "0 < favorCeiling s"
  by (simp add: favorCeiling_def maxFavor_pos)

lemma rageCeiling_frame:
  "skillLevels t = skillLevels s \<Longrightarrow> rageCeiling t = rageCeiling s"
  by (simp add: rageCeiling_def surZen_level)

lemma favorCeiling_frame: "rank t = rank s \<Longrightarrow> favorCeiling t = favorCeiling s"
  by (simp add: favorCeiling_def)

lemma metersInBounds_frame:
  "rank t = rank s \<Longrightarrow> skillLevels t = skillLevels s \<Longrightarrow> favor t = favor s
   \<Longrightarrow> rage t = rage s \<Longrightarrow> metersInBounds t = metersInBounds s"
  using rageCeiling_frame [of t s] favorCeiling_frame [of t s] by (simp add: metersInBounds_def)

lemma clampMeters_fields:
  "rank (clampMeters s) = rank s" "skillLevels (clampMeters s) = skillLevels s"
  "status (clampMeters s) = status s" "activeEvent (clampMeters s) = activeEvent s"
  "lastUsed (clampMeters s) = lastUsed s" "currentScene (clampMeters s) = currentScene s"
  "favor (clampMeters s) = max 0 (min (favorCeiling s) (favor s))"
  "rage (clampMeters s) = max 0 (min (rageCeiling s) (rage s))"
  by (simp_all add: clampMeters_def)

lemma clampMeters_bounds: "metersInBounds (clampMeters s)"
proof -
  have f: "favorCeiling (clampMeters s) = favorCeiling s"
    by (rule favorCeiling_frame) (simp add: clampMeters_fields)
  have r: "rageCeiling (clampMeters s) = rageCeiling s"
    by (rule rageCeiling_frame) (simp add: clampMeters_fields)
  show ?thesis
    using favorCeiling_pos [of s] rageCeiling_ge [of s]
    by (simp add: metersInBounds_def f r clampMeters_fields)
qed

lemma rescue_fields:
  "rank (rescue tun s) = rank s" "skillLevels (rescue tun s) = skillLevels s"
  "status (rescue tun s) = status s" "activeEvent (rescue tun s) = activeEvent s"
  "favor (rescue tun s) = favor s" "lastUsed (rescue tun s) = lastUsed s"
  by (simp_all add: rescue_def)

lemma rescue_bounds: "metersInBounds s \<Longrightarrow> metersInBounds (rescue tun s)"
proof -
  assume b: "metersInBounds s"
  have f: "favorCeiling (rescue tun s) = favorCeiling s"
    by (rule favorCeiling_frame) (simp add: rescue_fields)
  have r: "rageCeiling (rescue tun s) = rageCeiling s"
    by (rule rageCeiling_frame) (simp add: rescue_fields)
  have "0 \<le> rage (rescue tun s) \<and> rage (rescue tun s) \<le> rageCeiling s"
    using b rageCeiling_ge [of s] by (simp add: rescue_def metersInBounds_def)
  then show ?thesis
    using b by (simp add: metersInBounds_def f r rescue_fields)
qed

lemma promote_bounds: "metersInBounds s \<Longrightarrow> metersInBounds (promote r s)"
proof -
  assume b: "metersInBounds s"
  have r: "rageCeiling (promote r s) = rageCeiling s"
    by (rule rageCeiling_frame) (simp add: promote_def)
  show ?thesis
    using b favorCeiling_pos [of "promote r s"]
    by (simp add: metersInBounds_def r) (simp add: promote_def)
qed

lemma endRun_fields:
  "rank (endRun st s) = rank s" "skillLevels (endRun st s) = skillLevels s"
  "status (endRun st s) = st" "activeEvent (endRun st s) = activeEvent s"
  "favor (endRun st s) = favor s" "rage (endRun st s) = rage s"
  "lastUsed (endRun st s) = Map.empty"
  by (simp_all add: endRun_def)

lemma endRun_bounds: "metersInBounds (endRun st s) = metersInBounds s"
  by (rule metersInBounds_frame) (simp_all add: endRun_fields)

lemma evaluateProgress_bounds:
  "metersInBounds s \<Longrightarrow> metersInBounds (evaluateProgress tun s)"
  by (simp add: evaluateProgress_def Let_def endRun_bounds rescue_bounds promote_bounds
      split: option.split)

lemma resolveAction_Inr:
  "resolveAction tun dice i now s = (Inr d, s') \<Longrightarrow>
     \<exists>a. status s = RUNNING \<and> lookupAction (rank s) i = Some a \<and> sceneMatches a s
       \<and> isReady s a now \<and> affordable tun a s
       \<and> s' = evaluateProgress tun
               ((markUsed a now (clampMeters (applyEffects tun dice a now s)))
                \<lparr>lastActionId := Some i\<rparr>)"
  by (auto simp: resolveAction_def Let_def split: if_splits option.splits)

lemma resolveAction_Inl: "resolveAction tun dice i now s = (Inl err, s') \<Longrightarrow> s' = s"
  by (auto simp: resolveAction_def Let_def split: if_splits option.splits)

lemma resolveEventOption_Inr:
  "resolveEventOption tun e k s = (Inr d, s') \<Longrightarrow>
     \<exists>oc. status s = RUNNING
       \<and> s' = (evaluateProgress tun (clampMeters (applyOutcome oc s)))\<lparr>activeEvent := None\<rparr>"
  by (auto simp: resolveEventOption_def Let_def split: if_splits option.splits)

lemma resolveEventOption_Inl: "resolveEventOption tun e k s = (Inl err, s') \<Longrightarrow> s' = s"
  by (auto simp: resolveEventOption_def Let_def split: if_splits option.splits)

lemma changeScene_cases:
  "changeScene sc s = (r, s') \<Longrightarrow> s' = s \<or> (status s = RUNNING \<and> s' = s\<lparr>currentScene := sc\<rparr>)"
  by (auto simp: changeScene_def split: if_splits)

lemma resolveAction_bounds:
  "resolveAction tun dice i now s = (Inr d, s') \<Longrightarrow> metersInBounds s'"
proof -
  assume "resolveAction tun dice i now s = (Inr d, s')"
  then obtain a where
    s': "s' = evaluateProgress tun
               ((markUsed a now (clampMeters (applyEffects tun dice a now s)))
                \<lparr>lastActionId := Some i\<rparr>)"
    using resolveAction_Inr by blast
  let ?c = "clampMeters (applyEffects tun dice a now s)"
  have "metersInBounds ((markUsed a now ?c)\<lparr>lastActionId := Some i\<rparr>) = metersInBounds ?c"
    by (rule metersInBounds_frame) (simp_all add: markUsed_def)
  then have "metersInBounds ((markUsed a now ?c)\<lparr>lastActionId := Some i\<rparr>)"
    by (simp add: clampMeters_bounds)
  then show ?thesis
    unfolding s' by (rule evaluateProgress_bounds)
qed

lemma resolveEventOption_bounds:
  "resolveEventOption tun e k s = (Inr d, s') \<Longrightarrow> metersInBounds s'"
proof -
  assume "resolveEventOption tun e k s = (Inr d, s')"
  then obtain oc where
    s': "s' = (evaluateProgress tun (clampMeters (applyOutcome oc s)))\<lparr>activeEvent := None\<rparr>"
    using resolveEventOption_Inr by blast
  have "metersInBounds s' = metersInBounds (evaluateProgress tun (clampMeters (applyOutcome oc s)))"
    unfolding s' by (rule metersInBounds_frame) simp_all
  then show ?thesis by (simp add: evaluateProgress_bounds clampMeters_bounds)
qed

lemma pollForEvent_bounds: "metersInBounds (snd (pollForEvent dice now s)) = metersInBounds s"
  by (rule metersInBounds_frame) (simp_all add: pollForEvent_def split: option.split)

lemma changeScene_bounds: "metersInBounds (snd (changeScene sc s)) = metersInBounds s"
  by (rule metersInBounds_frame) (simp_all add: changeScene_def)

lemma exec_bounds: "metersInBounds s \<Longrightarrow> metersInBounds (exec tun c s)"
proof (cases c)
  case (ResolveAction dice i now)
  assume b: "metersInBounds s"
  obtain r s' where p: "resolveAction tun dice i now s = (r, s')"
    by (cases "resolveAction tun dice i now s")
  show ?thesis
  proof (cases r)
    case (Inl err)
    with p have "s' = s" by (simp add: resolveAction_Inl)
    with b p ResolveAction show ?thesis by simp
  next
    case (Inr d)
    with p have "metersInBounds s'" by (simp add: resolveAction_bounds)
    with p ResolveAction show ?thesis by simp
  qed
next
  case (PollForEvent dice now)
  assume "metersInBounds s"
  then show ?thesis using PollForEvent by (simp add: pollForEvent_bounds)
next
  case (ResolveEventOption e k)
  assume b: "metersInBounds s"
  obtain r s' where p: "resolveEventOption tun e k s = (r, s')"
    by (cases "resolveEventOption tun e k s")
  show ?thesis
  proof (cases r)
    case (Inl err)
    with p have "s' = s" by (simp add: resolveEventOption_Inl)
    with b p ResolveEventOption show ?thesis by simp
  next
    case (Inr d)
    with p have "metersInBounds s'" by (simp add: resolveEventOption_bounds)
    with p ResolveEventOption show ?thesis by simp
  qed
next
  case (ChangeScene sc)
  assume "metersInBounds s"
  then show ?thesis using ChangeScene by (simp add: changeScene_bounds)
qed

lemma run_bounds: "metersInBounds s \<Longrightarrow> metersInBounds (run tun cs s)"
  by (induction cs arbitrary: s) (simp_all add: exec_bounds)

lemma selectOrigin_bounds: "metersInBounds (selectOrigin tun og)"
  using rageCeiling_ge [of "selectOrigin tun og"] favorCeiling_pos [of "selectOrigin tun og"]
  by (simp add: metersInBounds_def) (simp add: selectOrigin_def)

lemma result_with_session: "fst p = r \<Longrightarrow> p = (r, snd p)"
  by (cases p) simp

text \<open>
  Claim C3. After every resolved action and every resolved event option, favor lies within
  \<open>[0, ceiling of the current rank]\<close> and rage within \<open>[0, rageCeiling]\<close>, whatever the session
  was before the call. A fresh session has both meters within their bounds, every sequence of
  calls keeps them there (whatever the skill levels of the session), and so no session reached
  from a fresh one has a meter outside its bounds.
\<close>

theorem meters_stay_in_bounds:
  "(resolveAction tun dice i now s = (Inr d, s') \<longrightarrow> metersInBounds s')
   \<and> (resolveEventOption tun e k s = (Inr d, s') \<longrightarrow> metersInBounds s')
   \<and> metersInBounds (selectOrigin tun og)
   \<and> (metersInBounds s \<longrightarrow> metersInBounds (run tun cs s))
   \<and> metersInBounds (run tun cs (selectOrigin tun og))"
  using resolveAction_bounds [of tun dice i now s d s']
    resolveEventOption_bounds [of tun e k s d s']
    run_bounds [of s tun cs] run_bounds [of "selectOrigin tun og" tun cs]
    selectOrigin_bounds [of tun og]
  by blast

theorem meters_stay_in_bounds_witness:
  "resolveAction sampleTuning quietDice ''help'' 0 grinderAtDesk
     = (Inr \<lparr>d_money = 0, d_favor = 20, d_rage = 20, d_skillPoints = 0\<rparr>,
        exec sampleTuning (ResolveAction quietDice ''help'' 0) grinderAtDesk)
   \<and> favor (exec sampleTuning (ResolveAction quietDice ''help'' 0) grinderAtDesk) = 20
   \<and> rage (exec sampleTuning (ResolveAction quietDice ''help'' 0) grinderAtDesk) = 20
   \<and> metersInBounds (exec sampleTuning (ResolveAction quietDice ''help'' 0) grinderAtDesk)
   \<and> resolveEventOption sampleTuning ''evt_blame'' 2 eventPending
     = (Inr \<lparr>d_money = - 1000, d_favor = 50, d_rage = 99, d_skillPoints = 0\<rparr>,
        exec sampleTuning (ResolveEventOption ''evt_blame'' 2) eventPending)
   \<and> favor (exec sampleTuning (ResolveEventOption ''evt_blame'' 2) eventPending) = 50
   \<and> rage (exec sampleTuning (ResolveEventOption ''evt_blame'' 2) eventPending) = 99
   \<and> metersInBounds (exec sampleTuning (ResolveEventOption ''evt_blame'' 2) eventPending)"
proof -
  have "fst (resolveAction sampleTuning quietDice ''help'' 0 grinderAtDesk)
      = Inr \<lparr>d_money = 0, d_favor = 20, d_rage = 20, d_skillPoints = 0\<rparr>"
    by code_simp
  then have a: "resolveAction sampleTuning quietDice ''help'' 0 grinderAtDesk
     = (Inr \<lparr>d_money = 0, d_favor = 20, d_rage = 20, d_skillPoints = 0\<rparr>,
        exec sampleTuning (ResolveAction quietDice ''help'' 0) grinderAtDesk)"
    unfolding exec.simps by (rule result_with_session)
  have "fst (resolveEventOption sampleTuning ''evt_blame'' 2 eventPending)
      = Inr \<lparr>d_money = - 1000, d_favor = 50, d_rage = 99, d_skillPoints = 0\<rparr>"
    by code_simp
  then have b: "resolveEventOption sampleTuning ''evt_blame'' 2 eventPending
     = (Inr \<lparr>d_money = - 1000, d_favor = 50, d_rage = 99, d_skillPoints = 0\<rparr>,
        exec sampleTuning (ResolveEventOption ''evt_blame'' 2) eventPending)"
    unfolding exec.simps by (rule result_with_session)
  have v: "favor (exec sampleTuning (ResolveAction quietDice ''help'' 0) grinderAtDesk) = 20"
    "rage (exec sampleTuning (ResolveAction quietDice ''help'' 0) grinderAtDesk) = 20"
    "favor (exec sampleTuning (ResolveEventOption ''evt_blame'' 2) eventPending) = 50"
    "rage (exec sampleTuning (ResolveEventOption ''evt_blame'' 2) eventPending) = 99"
    by code_simp+
  from meters_stay_in_bounds [of sampleTuning quietDice "''help''" 0 grinderAtDesk] a
  have c: "metersInBounds (exec sampleTuning (ResolveAction quietDice ''help'' 0) grinderAtDesk)"
    by blast
  from meters_stay_in_bounds
    [where tun = sampleTuning and e = "''evt_blame''" and k = 2 and s = eventPending] b
  have d: "metersInBounds (exec sampleTuning (ResolveEventOption ''evt_blame'' 2) eventPending)"
    by blast
  from a b v c d show ?thesis by blast
qed

subsection \<open>Progression\<close>

lemma applyEffects_fields:
  "status (applyEffects tun dice a now s) = status s"
  "rank (applyEffects tun dice a now s) = rank s"
  "skillLevels (applyEffects tun dice a now s) = skillLevels s"
  "lastUsed (applyEffects tun dice a now s) = lastUsed s"
  "currentScene (applyEffects tun dice a now s) = currentScene s"
  by (cases "act_type a"; simp add: applyEffects_def Let_def pollForEvent_def split: option.split)+

lemma applyOutcome_fields:
  "status (applyOutcome oc s) = status s" "rank (applyOutcome oc s) = rank s"
  "skillLevels (applyOutcome oc s) = skillLevels s" "lastUsed (applyOutcome oc s) = lastUsed s"
  "activeEvent (applyOutcome oc s) = activeEvent s"
  by (simp_all add: applyOutcome_def)

lemma evaluateProgress_wins:
  "favor t = favorCeiling t \<Longrightarrow> nextRank (rank t) = None \<Longrightarrow>
     evaluateProgress tun t = endRun WON t"
  by (simp add: evaluateProgress_def)

lemma evaluateProgress_won_only:
  assumes "status t \<noteq> WON" and "status (evaluateProgress tun t) = WON"
  shows "favor t = favorCeiling t \<and> nextRank (rank t) = None"
proof (rule ccontr)
  assume n: "\<not> (favor t = favorCeiling t \<and> nextRank (rank t) = None)"
  let ?s1 = "rescue tun t"
  have e: "evaluateProgress tun t =
      (if rage ?s1 = rageCeiling ?s1 then endRun FAILED ?s1
       else if favor ?s1 = favorCeiling ?s1 then
         (case nextRank (rank ?s1) of None \<Rightarrow> ?s1 | Some r \<Rightarrow> promote r ?s1)
       else ?s1)"
    by (simp only: evaluateProgress_def Let_def if_not_P [OF n])
  have p: "status (promote r ?s1) = status t" for r
    by (simp add: promote_def rescue_fields)
  have "status (evaluateProgress tun t) = FAILED \<or> status (evaluateProgress tun t) = status t"
  proof (cases "rage ?s1 = rageCeiling ?s1")
    case True
    with e show ?thesis by (simp add: endRun_fields)
  next
    case False
    with e p show ?thesis
      by (cases "nextRank (rank ?s1)") (simp_all add: rescue_fields)
  qed
  with assms show False by auto
qed

lemma clamp_reaches_ceiling:
  assumes "favorCeiling x \<le> favor x"
  shows "favor (clampMeters x) = favorCeiling (clampMeters x)"
proof -
  have "favorCeiling (clampMeters x) = favorCeiling x"
    by (rule favorCeiling_frame) (simp add: clampMeters_fields)
  with assms favorCeiling_pos [of x] show ?thesis
    by (simp add: clampMeters_fields)
qed

lemma resolveAction_wins:
  assumes "status s = RUNNING" and "nextRank (rank s) = None"
    and "lookupAction (rank s) i = Some a" and "sceneMatches a s" and "isReady s a now"
    and "affordable tun a s"
    and "favorCeiling s \<le> favor (applyEffects tun dice a now s)"
  shows "status (snd (resolveAction tun dice i now s)) = WON
    \<and> favor (snd (resolveAction tun dice i now s)) = favorCeiling s"
proof -
  let ?x = "applyEffects tun dice a now s"
  let ?t = "(markUsed a now (clampMeters ?x))\<lparr>lastActionId := Some i\<rparr>"
  have cx: "favorCeiling ?x = favorCeiling s"
    by (rule favorCeiling_frame) (simp add: applyEffects_fields)
  with assms(7) have "favor (clampMeters ?x) = favorCeiling (clampMeters ?x)"
    by (simp add: clamp_reaches_ceiling)
  moreover have "favorCeiling (clampMeters ?x) = favorCeiling s"
    using cx by (simp add: favorCeiling_def clampMeters_fields)
  ultimately have f: "favor ?t = favorCeiling s" and c: "favorCeiling ?t = favorCeiling s"
    by (simp_all add: markUsed_def favorCeiling_def clampMeters_fields applyEffects_fields)
  have r: "nextRank (rank ?t) = None"
    using assms(2) by (simp add: markUsed_def clampMeters_fields applyEffects_fields)
  have "evaluateProgress tun ?t = endRun WON ?t"
    using f c r by (simp add: evaluateProgress_wins)
  moreover have "snd (resolveAction tun dice i now s) = evaluateProgress tun ?t"
    using assms(1,3-6) by (simp add: resolveAction_def Let_def)
  ultimately show ?thesis
    using f by (simp add: endRun_fields)
qed

lemma resolveEventOption_wins:
  assumes "status s = RUNNING" and "nextRank (rank s) = None"
    and "find (\<lambda>x. ev_id x = e) RANDOM_EVENTS = Some ev"
    and "0 \<le> k" and "k < int (length (ev_options ev))"
    and "favorCeiling s \<le> favor (applyOutcome (outcome (ev_options ev ! nat k)) s)"
  shows "status (snd (resolveEventOption tun e k s)) = WON
    \<and> favor (snd (resolveEventOption tun e k s)) = favorCeiling s"
proof -
  let ?x = "applyOutcome (outcome (ev_options ev ! nat k)) s"
  let ?t = "clampMeters ?x"
  have cx: "favorCeiling ?x = favorCeiling s"
    by (rule favorCeiling_frame) (simp add: applyOutcome_fields)
  with assms(6) have f: "favor ?t = favorCeiling ?t"
    by (simp add: clamp_reaches_ceiling)
  have c: "favorCeiling ?t = favorCeiling s"
    using cx by (simp add: favorCeiling_def clampMeters_fields)
  have r: "nextRank (rank ?t) = None"
    using assms(2) by (simp add: clampMeters_fields applyOutcome_fields)
  have "evaluateProgress tun ?t = endRun WON ?t"
    using f r by (simp add: evaluateProgress_wins)
  moreover have "snd (resolveEventOption tun e k s)
      = (evaluateProgress tun ?t)\<lparr>activeEvent := None\<rparr>"
    using assms(1,3-5) by (simp add: resolveEventOption_def Let_def)
  ultimately show ?thesis
    using f c by (simp add: endRun_fields)
qed

lemma resolveAction_terminal:
  "status s \<noteq> RUNNING \<Longrightarrow> resolveAction tun dice i now s = (Inl SessionTerminated, s)"
  by (simp add: resolveAction_def)

lemma resolveEventOption_terminal:
  "status s \<noteq> RUNNING \<Longrightarrow> resolveEventOption tun e k s = (Inl SessionTerminated, s)"
  by (simp add: resolveEventOption_def)

lemma pollForEvent_frame:
  "status (snd (pollForEvent dice now s)) = status s"
  "rank (snd (pollForEvent dice now s)) = rank s"
  "favor (snd (pollForEvent dice now s)) = favor s"
  "rage (snd (pollForEvent dice now s)) = rage s"
  "money (snd (pollForEvent dice now s)) = money s"
  "lastUsed (snd (pollForEvent dice now s)) = lastUsed s"
  by (simp_all add: pollForEvent_def split: option.split)

lemma exec_terminal:
  assumes "status s \<noteq> RUNNING"
  shows "status (exec tun c s) = status s \<and> rank (exec tun c s) = rank s
    \<and> favor (exec tun c s) = favor s \<and> rage (exec tun c s) = rage s
    \<and> money (exec tun c s) = money s"
proof (cases c)
  case (ResolveAction dice i now)
  with assms show ?thesis by (simp add: resolveAction_terminal)
next
  case (PollForEvent dice now)
  then show ?thesis by (simp add: pollForEvent_frame)
next
  case (ResolveEventOption e k)
  with assms show ?thesis by (simp add: resolveEventOption_terminal)
next
  case (ChangeScene sc)
  with assms show ?thesis by (simp add: changeScene_def)
qed

lemma run_terminal:
  "status s \<noteq> RUNNING \<Longrightarrow>
     status (run tun cs s) = status s \<and> rank (run tun cs s) = rank s
     \<and> favor (run tun cs s) = favor s \<and> rage (run tun cs s) = rage s
     \<and> money (run tun cs s) = money s"
proof (induction cs arbitrary: s)
  case Nil
  then show ?case by simp
next
  case (Cons c cs)
  from Cons.prems have step: "status (exec tun c s) = status s \<and> rank (exec tun c s) = rank s
    \<and> favor (exec tun c s) = favor s \<and> rage (exec tun c s) = rage s
    \<and> money (exec tun c s) = money s"
    by (rule exec_terminal)
  with Cons.prems have "status (exec tun c s) \<noteq> RUNNING" by simp
  from Cons.IH [OF this] step show ?case by simp
qed

lemma exec_enters_won:
  assumes "status s \<noteq> WON" and "status (exec tun c s) = WON"
  shows "nextRank (rank (exec tun c s)) = None
    \<and> favor (exec tun c s) = favorCeiling (exec tun c s)"
proof (cases c)
  case (ResolveAction dice i now)
  obtain r s' where p: "resolveAction tun dice i now s = (r, s')"
    by (cases "resolveAction tun dice i now s")
  show ?thesis
  proof (cases r)
    case (Inl err)
    with p have "s' = s" by (simp add: resolveAction_Inl)
    with p ResolveAction assms show ?thesis by simp
  next
    case (Inr d)
    with p obtain a where run: "status s = RUNNING"
      and s': "s' = evaluateProgress tun
               ((markUsed a now (clampMeters (applyEffects tun dice a now s)))
                \<lparr>lastActionId := Some i\<rparr>)"
      using resolveAction_Inr by blast
    let ?t = "(markUsed a now (clampMeters (applyEffects tun dice a now s)))
                \<lparr>lastActionId := Some i\<rparr>"
    have st: "status ?t \<noteq> WON"
      using run by (simp add: markUsed_def clampMeters_fields applyEffects_fields)
    have won: "status (evaluateProgress tun ?t) = WON"
      using assms(2) p ResolveAction s' by simp
    from evaluateProgress_won_only [OF st won]
    have t: "favor ?t = favorCeiling ?t" "nextRank (rank ?t) = None"
      by simp_all
    then have "s' = endRun WON ?t"
      unfolding s' by (rule evaluateProgress_wins)
    then have "rank s' = rank ?t" "favor s' = favor ?t" "favorCeiling s' = favorCeiling ?t"
      by (simp_all add: endRun_fields favorCeiling_def)
    with t p ResolveAction show ?thesis by simp
  qed
next
  case (PollForEvent dice now)
  with assms show ?thesis by (simp add: pollForEvent_frame)
next
  case (ResolveEventOption e k)
  obtain r s' where p: "resolveEventOption tun e k s = (r, s')"
    by (cases "resolveEventOption tun e k s")
  show ?thesis
  proof (cases r)
    case (Inl err)
    with p have "s' = s" by (simp add: resolveEventOption_Inl)
    with p ResolveEventOption assms show ?thesis by simp
  next
    case (Inr d)
    with p obtain oc where run: "status s = RUNNING"
      and s': "s' = (evaluateProgress tun (clampMeters (applyOutcome oc s)))
                    \<lparr>activeEvent := None\<rparr>"
      using resolveEventOption_Inr by blast
    let ?t = "clampMeters (applyOutcome oc s)"
    have st: "status ?t \<noteq> WON"
      using run by (simp add: clampMeters_fields applyOutcome_fields)
    have won: "status (evaluateProgress tun ?t) = WON"
      using assms(2) p ResolveEventOption s' by simp
    from evaluateProgress_won_only [OF st won]
    have t: "favor ?t = favorCeiling ?t" "nextRank (rank ?t) = None"
      by simp_all
    then have "evaluateProgress tun ?t = endRun WON ?t"
      by (rule evaluateProgress_wins)
    then have "rank s' = rank ?t" "favor s' = favor ?t" "favorCeiling s' = favorCeiling ?t"
      unfolding s' by (simp_all add: endRun_fields favorCeiling_def)
    with t p ResolveEventOption show ?thesis by simp
  qed
next
  case (ChangeScene sc)
  have "status (snd (changeScene sc s)) = status s"
    by (simp add: changeScene_def)
  with assms ChangeScene show ?thesis by simp
qed

lemma wonEntries_after_won: "status s = WON \<Longrightarrow> wonEntries tun cs s = 0"
proof (induction cs arbitrary: s)
  case Nil
  then show ?case by simp
next
  case (Cons c cs)
  then have "status (exec tun c s) = WON"
    using exec_terminal [of s tun c] by simp
  with Cons show ?case by simp
qed

lemma wonEntries_le_1: "wonEntries tun cs s \<le> 1"
proof (induction cs arbitrary: s)
  case Nil
  then show ?case by simp
next
  case (Cons c cs)
  show ?case
  proof (cases "status (exec tun c s) = WON")
    case True
    then show ?thesis by (simp add: wonEntries_after_won)
  next
    case False
    with Cons.IH [of "exec tun c s"] show ?thesis by simp
  qed
qed

lemma wonEntries_ge_1:
  "status s \<noteq> WON \<Longrightarrow> status (run tun cs s) = WON \<Longrightarrow> 1 \<le> wonEntries tun cs s"
proof (induction cs arbitrary: s)
  case Nil
  then show ?case by simp
next
  case (Cons c cs)
  show ?case
  proof (cases "status (exec tun c s) = WON")
    case True
    with Cons.prems(1) show ?thesis by simp
  next
    case False
    with Cons.prems(2) Cons.IH [of "exec tun c s"] show ?thesis by simp
  qed
qed

lemma wonEntries_exactly_1:
  "status s \<noteq> WON \<Longrightarrow> status (run tun cs s) = WON \<Longrightarrow> wonEntries tun cs s = 1"
  using wonEntries_ge_1 [of s tun cs] wonEntries_le_1 [of tun cs s] by simp

text \<open>
  Claim C4. At the final rank, a resolved action or event option whose effects take favor to
  the ceiling (or past it, before the clamp) leaves the session WON with favor at the
  ceiling; and a call takes a session into WON only with favor at the ceiling of the final
  rank. A sequence of calls that ends in WON has entered WON exactly once, and no sequence
  enters it twice. From WON or FAILED no call changes the status, the rank or the meters, and
  every call of \<open>resolveAction\<close> (and of \<open>resolveEventOption\<close>) fails with \<open>SessionTerminated\<close>.
\<close>

theorem won_once_then_terminated:
  "(status s = RUNNING \<longrightarrow> nextRank (rank s) = None \<longrightarrow> lookupAction (rank s) i = Some a
      \<longrightarrow> sceneMatches a s \<longrightarrow> isReady s a now \<longrightarrow> affordable tun a s
      \<longrightarrow> favorCeiling s \<le> favor (applyEffects tun dice a now s)
      \<longrightarrow> status (snd (resolveAction tun dice i now s)) = WON
        \<and> favor (snd (resolveAction tun dice i now s)) = favorCeiling s)
   \<and> (status s = RUNNING \<longrightarrow> nextRank (rank s) = None
      \<longrightarrow> find (\<lambda>x. ev_id x = e) RANDOM_EVENTS = Some ev
      \<longrightarrow> 0 \<le> k \<longrightarrow> k < int (length (ev_options ev))
      \<longrightarrow> favorCeiling s \<le> favor (applyOutcome (outcome (ev_options ev ! nat k)) s)
      \<longrightarrow> status (snd (resolveEventOption tun e k s)) = WON
        \<and> favor (snd (resolveEventOption tun e k s)) = favorCeiling s)
   \<and> (status s \<noteq> WON \<longrightarrow> status (exec tun c s) = WON
      \<longrightarrow> nextRank (rank (exec tun c s)) = None
        \<and> favor (exec tun c s) = favorCeiling (exec tun c s))
   \<and> wonEntries tun cs s \<le> 1
   \<and> (status s \<noteq> WON \<longrightarrow> status (run tun cs s) = WON \<longrightarrow> wonEntries tun cs s = 1)
   \<and> (status s \<noteq> RUNNING \<longrightarrow>
        status (run tun cs s) = status s \<and> rank (run tun cs s) = rank s
        \<and> favor (run tun cs s) = favor s \<and> rage (run tun cs s) = rage s)
   \<and> (status s \<noteq> RUNNING \<longrightarrow>
        resolveAction tun dice i now s = (Inl SessionTerminated, s)
        \<and> resolveEventOption tun e k s = (Inl SessionTerminated, s))"
  using resolveAction_wins [of s i a now tun dice] resolveEventOption_wins [of s e ev k tun]
    exec_enters_won [of s tun c] wonEntries_le_1 [of tun cs s] wonEntries_exactly_1 [of s tun cs]
    run_terminal [of s tun cs]
    resolveAction_terminal [of s tun dice i now] resolveEventOption_terminal [of s tun e k]
  by simp

theorem won_once_then_terminated_witness:
  "status directorAtTheTop = RUNNING \<and> nextRank (rank directorAtTheTop) = None
   \<and> lookupAction (rank directorAtTheTop) ''ipo'' = Some (hd (actions (JOBS DIRECTOR)))
   \<and> favor directorAtTheTop = 9950 \<and> favorCeiling directorAtTheTop = 9999
   \<and> favor (applyEffects sampleTuning quietDice (hd (actions (JOBS DIRECTOR))) 0
        directorAtTheTop) = 10450
   \<and> status retired = WON \<and> favor retired = 9999
   \<and> resolveAction sampleTuning quietDice ''ipo'' 20000 retired = (Inl SessionTerminated, retired)
   \<and> favor (applyOutcome (outcome (ev_options evt_boss_secret ! nat 1)) directorAtTheTop)
      = 10000
   \<and> status (snd (resolveEventOption sampleTuning ''evt_boss_secret'' 1 directorAtTheTop)) = WON
   \<and> status
        (run sampleTuning
          [ResolveAction quietDice ''ipo'' 0, ResolveAction quietDice ''ipo'' 20000]
          directorAtTheTop) = WON
   \<and> wonEntries sampleTuning
        [ResolveAction quietDice ''ipo'' 0, ResolveAction quietDice ''ipo'' 20000]
        directorAtTheTop = 1"
proof -
  let ?a = "hd (actions (JOBS DIRECTOR))"
  let ?cs = "[ResolveAction quietDice ''ipo'' 0, ResolveAction quietDice ''ipo'' 20000]"
  have h: "status directorAtTheTop = RUNNING" "nextRank (rank directorAtTheTop) = None"
    "lookupAction (rank directorAtTheTop) ''ipo'' = Some ?a"
    "sceneMatches ?a directorAtTheTop" "isReady directorAtTheTop ?a 0"
    "affordable sampleTuning ?a directorAtTheTop"
    "favor directorAtTheTop = 9950" "favorCeiling directorAtTheTop = 9999"
    "favor (applyEffects sampleTuning quietDice ?a 0 directorAtTheTop) = 10450"
    "favor (applyOutcome (outcome (ev_options evt_boss_secret ! nat 1)) directorAtTheTop)
      = 10000"
    by code_simp+
  have le: "favorCeiling directorAtTheTop
      \<le> favor (applyEffects sampleTuning quietDice ?a 0 directorAtTheTop)"
    unfolding h(8,9) by simp
  note wins = won_once_then_terminated
    [where s = directorAtTheTop and i = "''ipo''" and a = ?a and now = 0
       and tun = sampleTuning and dice = quietDice, THEN conjunct1]
  from wins h(1-6) le
  have w: "status retired = WON \<and> favor retired = favorCeiling directorAtTheTop"
    unfolding retired_def exec.simps by blast
  then have t: "status retired \<noteq> RUNNING"
    by simp
  note terminal = won_once_then_terminated
    [where s = retired and i = "''ipo''" and now = 20000 and tun = sampleTuning
       and dice = quietDice,
     THEN conjunct2, THEN conjunct2, THEN conjunct2, THEN conjunct2, THEN conjunct2,
     THEN conjunct2]
  from terminal t
  have e: "resolveAction sampleTuning quietDice ''ipo'' 20000 retired
      = (Inl SessionTerminated, retired)"
    by simp
  have ev: "find (\<lambda>x. ev_id x = ''evt_boss_secret'') RANDOM_EVENTS = Some evt_boss_secret"
    by (simp add: RANDOM_EVENTS_def evt_boss_secret_def)
  have k: "(0::int) \<le> 1" "1 < int (length (ev_options evt_boss_secret))"
    by (simp_all add: evt_boss_secret_def)
  have le2: "favorCeiling directorAtTheTop
      \<le> favor (applyOutcome (outcome (ev_options evt_boss_secret ! nat 1)) directorAtTheTop)"
    unfolding h(8,10) by simp
  note option_wins = won_once_then_terminated
    [where s = directorAtTheTop and e = "''evt_boss_secret''" and ev = evt_boss_secret
       and k = 1 and tun = sampleTuning, THEN conjunct2, THEN conjunct1]
  from option_wins h(1,2) ev k le2
  have o: "status (snd (resolveEventOption sampleTuning ''evt_boss_secret'' 1 directorAtTheTop))
      = WON"
    by blast
  have r: "status (run sampleTuning ?cs directorAtTheTop) = WON"
    by code_simp
  have nw: "status directorAtTheTop \<noteq> WON"
    by (simp add: h(1))
  note once = won_once_then_terminated
    [where s = directorAtTheTop and tun = sampleTuning and cs = ?cs,
     THEN conjunct2, THEN conjunct2, THEN conjunct2, THEN conjunct2, THEN conjunct1]
  from once nw r
  have n: "wonEntries sampleTuning ?cs directorAtTheTop = 1"
    by simp
  have f: "favor retired = 9999"
    using w h(8) by simp
  from h(1,2,3,7,8,9,10) w f e o r n show ?thesis
    by (intro conjI) simp_all
qed

subsection \<open>Event lock\<close>

lemma evaluateProgress_activeEvent:
  "activeEvent (evaluateProgress tun s) = activeEvent s"
  by (simp add: evaluateProgress_def Let_def rescue_fields promote_def endRun_fields
      split: option.split)

lemma applyEffects_activeEvent:
  "activeEvent s \<noteq> None \<Longrightarrow> activeEvent (applyEffects tun dice a now s) = activeEvent s"
  by (cases "act_type a") (simp_all add: applyEffects_def Let_def pollForEvent_def)

lemma pollForEvent_locked:
  "activeEvent s \<noteq> None \<Longrightarrow> pollForEvent dice now s = (None, s)"
  by (simp add: pollForEvent_def)

lemma resolveAction_activeEvent:
  assumes "resolveAction tun dice i now s = (Inr d, s')" and "activeEvent s \<noteq> None"
  shows "activeEvent s' = activeEvent s"
proof -
  from assms(1) obtain a where
    s': "s' = evaluateProgress tun
               ((markUsed a now (clampMeters (applyEffects tun dice a now s)))
                \<lparr>lastActionId := Some i\<rparr>)"
    using resolveAction_Inr by blast
  have "activeEvent s' = activeEvent (applyEffects tun dice a now s)"
    unfolding s' by (simp add: markUsed_def evaluateProgress_activeEvent clampMeters_fields)
  with assms(2) show ?thesis by (simp add: applyEffects_activeEvent)
qed

lemma exec_keeps_lock:
  assumes "activeEvent s \<noteq> None" and "\<not> isOptionCommand c"
  shows "activeEvent (exec tun c s) = activeEvent s"
proof (cases c)
  case (ResolveAction dice i now)
  obtain r s' where p: "resolveAction tun dice i now s = (r, s')"
    by (cases "resolveAction tun dice i now s")
  show ?thesis
  proof (cases r)
    case (Inl err)
    with p have "s' = s" by (simp add: resolveAction_Inl)
    with p ResolveAction show ?thesis by simp
  next
    case (Inr d)
    with p assms(1) have "activeEvent s' = activeEvent s"
      by (simp add: resolveAction_activeEvent)
    with p ResolveAction show ?thesis by simp
  qed
next
  case (PollForEvent dice now)
  with assms(1) show ?thesis by (simp add: pollForEvent_locked)
next
  case (ResolveEventOption e k)
  with assms(2) show ?thesis by simp
next
  case (ChangeScene sc)
  then show ?thesis by (simp add: changeScene_def)
qed

lemma run_keeps_lock:
  "activeEvent s \<noteq> None \<Longrightarrow> \<forall>c \<in> set cs. \<not> isOptionCommand c \<Longrightarrow>
     activeEvent (run tun cs s) = activeEvent s"
proof (induction cs arbitrary: s)
  case Nil
  then show ?case by simp
next
  case (Cons c cs)
  from Cons.prems have step: "activeEvent (exec tun c s) = activeEvent s"
    by (simp add: exec_keeps_lock)
  with Cons.prems have "activeEvent (exec tun c s) \<noteq> None" by simp
  from Cons.IH [OF this] Cons.prems(2) step show ?case by simp
qed

lemma resolveEventOption_clears:
  "resolveEventOption tun e k s = (Inr d, s') \<Longrightarrow> activeEvent s' = None"
  using resolveEventOption_Inr [of tun e k s d s'] by auto

text \<open>
  Claim C6. At most one event is active at a time. While an event is active \<open>pollForEvent\<close>
  returns none and leaves the session as it is, for every value of the random source; the
  lock survives every sequence of calls other than \<open>resolveEventOption\<close>, after which a poll
  still returns none; a resolved event option clears the lock.
\<close>

theorem one_event_at_a_time:
  "(activeEvent s \<noteq> None \<longrightarrow> pollForEvent dice now s = (None, s))
   \<and> (activeEvent s \<noteq> None \<longrightarrow> (\<forall>c \<in> set cs. \<not> isOptionCommand c) \<longrightarrow>
        activeEvent (run tun cs s) = activeEvent s
        \<and> fst (pollForEvent dice now (run tun cs s)) = None)
   \<and> (resolveEventOption tun e k s = (Inr d, s') \<longrightarrow> activeEvent s' = None)"
  using pollForEvent_locked [of s dice now] run_keeps_lock [of s cs tun]
    pollForEvent_locked [of "run tun cs s" dice now]
    resolveEventOption_clears [of tun e k s d s']
  by simp

theorem one_event_at_a_time_witness:
  "activeEvent eventPending = Some ''evt_boss_secret''
   \<and> pollForEvent loudDice 5 eventPending = (None, eventPending)
   \<and> filter isOptionCommand busyCalls = []
   \<and> activeEvent (run sampleTuning busyCalls eventPending) = Some ''evt_boss_secret''
   \<and> favor (run sampleTuning busyCalls eventPending) = 2
   \<and> fst (pollForEvent loudDice 30 (run sampleTuning busyCalls eventPending)) = None
   \<and> resolveEventOption sampleTuning ''evt_boss_secret'' 0 eventPending
     = (Inr \<lparr>d_money = 0, d_favor = 10, d_rage = 0, d_skillPoints = 2\<rparr>, eventResolved)
   \<and> activeEvent eventResolved = None
   \<and> map_option ev_id (fst (pollForEvent loudDice 40 eventResolved)) = Some ''evt_boss_secret''"
proof -
  have p: "activeEvent eventPending = Some ''evt_boss_secret''"
    by code_simp
  then have ne: "activeEvent eventPending \<noteq> None"
    by simp
  have q: "\<forall>c \<in> set busyCalls. \<not> isOptionCommand c"
    by (simp add: busyCalls_def)
  have "fst (resolveEventOption sampleTuning ''evt_boss_secret'' 0 eventPending)
      = Inr \<lparr>d_money = 0, d_favor = 10, d_rage = 0, d_skillPoints = 2\<rparr>"
    by code_simp
  then have r: "resolveEventOption sampleTuning ''evt_boss_secret'' 0 eventPending
      = (Inr \<lparr>d_money = 0, d_favor = 10, d_rage = 0, d_skillPoints = 2\<rparr>, eventResolved)"
    unfolding eventResolved_def exec.simps by (rule result_with_session)
  have f: "favor (run sampleTuning busyCalls eventPending) = 2"
    and g: "map_option ev_id (fst (pollForEvent loudDice 40 eventResolved))
      = Some ''evt_boss_secret''"
    by code_simp+
  note locked = one_event_at_a_time
    [where s = eventPending and dice = loudDice and now = 5, THEN conjunct1]
  from locked ne
  have l1: "pollForEvent loudDice 5 eventPending = (None, eventPending)"
    by simp
  note kept = one_event_at_a_time
    [where s = eventPending and cs = busyCalls and tun = sampleTuning and dice = loudDice
       and now = 30, THEN conjunct2, THEN conjunct1]
  from kept ne q
  have l2: "activeEvent (run sampleTuning busyCalls eventPending) = activeEvent eventPending
      \<and> fst (pollForEvent loudDice 30 (run sampleTuning busyCalls eventPending)) = None"
    by blast
  note cleared = one_event_at_a_time
    [where tun = sampleTuning and e = "''evt_boss_secret''" and k = 0 and s = eventPending
       and s' = eventResolved
       and d = "\<lparr>d_money = 0, d_favor = 10, d_rage = 0, d_skillPoints = 2\<rparr>",
     THEN conjunct2, THEN conjunct2]
  from cleared r
  have l3: "activeEvent eventResolved = None"
    by blast
  have q': "filter isOptionCommand busyCalls = []"
    by (simp add: busyCalls_def)
  from p q' r f g l1 l2 l3 show ?thesis by simp
qed

subsection \<open>Cooldown\<close>
























subsection \<open>The work scenario\<close>

lemma lookup_work_hard: "lookupAction r ''work_hard'' = Some (hd WORK_ACTIONS)"
  by (cases r)
    (simp_all add: lookupAction_def availableActions_def COMMON_VIOLENCE_def WORK_ACTIONS_def)

lemma work_hard_fields:
  "act_type (hd WORK_ACTIONS) = WORK" "act_value (hd WORK_ACTIONS) = 10"
  "act_cost (hd WORK_ACTIONS) = None" "act_targetScene (hd WORK_ACTIONS) = Some WORKSTATION"
  by (simp_all add: WORK_ACTIONS_def)

lemma typing_level2:
  "skillLevels s ''eff_typing'' = 2 \<Longrightarrow> skillBonus WORK s = 14 / 10"
  by (simp add: skillLevel_def SKILLS_def)

lemma resolve_work_level2:
  assumes "origin s = GRINDER" and "skillLevels s ''eff_typing'' = 2"
  shows "resolve tun dice WORK 10 s = 14"
proof -
  have b: "skillBonus WORK s = 14 / 10"
    using assms(2) by (rule typing_level2)
  show ?thesis
    by (simp add: resolve_def critMultiplier_def b assms(1) del: skillBonus.simps)
qed

lemma evaluateProgress_favor:
  "favor s \<noteq> favorCeiling s \<Longrightarrow> favor (evaluateProgress tun s) = favor s"
  by (simp add: evaluateProgress_def Let_def rescue_fields endRun_fields favorCeiling_def)

text \<open>
  Claim C5. With the origin GRINDER (base money -50000, intellect 90) and \<open>eff_typing\<close> at
  level 2 (+20% per level, so a factor 1.4), in a running session at the workstation with
  \<open>work_hard\<close> ready and room for the gain below the favor ceiling, \<open>resolveAction('work_hard')\<close>
  with the base value 10 succeeds and reports a favor delta of exactly 14, the floor of
  \<open>10 * 1.4\<close>, an integer; for every value of the open constants and of the random source.
\<close>

theorem work_hard_delta:
  assumes "origin s = GRINDER"
    and "status s = RUNNING"
    and "currentScene s = WORKSTATION"
    and "skillLevels s ''eff_typing'' = 2"
    and "isReady s (hd WORK_ACTIONS) now"
    and "0 \<le> favor s" and "favor s + 14 < favorCeiling s"
  shows "bs_money (baseStats (ORIGINS GRINDER)) = - 50000
    \<and> bs_intellect (baseStats (ORIGINS GRINDER)) = 90
    \<and> act_value (hd WORK_ACTIONS) = 10
    \<and> skillBonus WORK s = 14 / 10
    \<and> resolve tun dice WORK 10 s = \<lfloor>10 * (14 / 10) :: real\<rfloor>
    \<and> fst (resolveAction tun dice ''work_hard'' now s)
        = Inr (stateDelta s (snd (resolveAction tun dice ''work_hard'' now s)))
    \<and> d_favor (stateDelta s (snd (resolveAction tun dice ''work_hard'' now s))) = 14"
proof -
  let ?a = "hd WORK_ACTIONS"
  let ?s1 = "applyEffects tun dice ?a now s"
  let ?s2 = "clampMeters ?s1"
  let ?t = "(markUsed ?a now ?s2)\<lparr>lastActionId := Some ''work_hard''\<rparr>"
  have v: "resolve tun dice WORK 10 s = 14"
    using assms(1,4) by (rule resolve_work_level2)
  have s1: "favor ?s1 = favor s + 14" "rank ?s1 = rank s"
    by (simp_all add: applyEffects_def work_hard_fields v Let_def)
  have c1: "favorCeiling ?s1 = favorCeiling s"
    by (simp add: favorCeiling_def s1)
  have s2: "favor ?s2 = favor s + 14"
    using assms(6,7) by (simp add: clampMeters_fields s1 c1)
  have "favor ?t = favor ?s2"
    by (simp add: markUsed_def)
  with s2 have tf: "favor ?t = favor s + 14"
    by (simp only:)
  have tc: "favorCeiling ?t = favorCeiling s"
    by (simp add: markUsed_def favorCeiling_def clampMeters_fields s1)
  note t = tf tc
  have "favor ?t \<noteq> favorCeiling ?t"
    unfolding t using assms(7) by simp
  then have "favor (evaluateProgress tun ?t) = favor ?t"
    by (rule evaluateProgress_favor)
  then have f: "favor (evaluateProgress tun ?t) = favor s + 14"
    by (simp only: t)
  have r: "resolveAction tun dice ''work_hard'' now s
      = (Inr (stateDelta s (evaluateProgress tun ?t)), evaluateProgress tun ?t)"
    using assms(2,3,5)
    by (simp add: resolveAction_def lookup_work_hard sceneMatches_def affordable_def
        work_hard_fields Let_def)
  have d: "d_favor (stateDelta s (evaluateProgress tun ?t)) = 14"
    by (simp add: stateDelta_def f)
  have b: "skillBonus WORK s = 14 / 10"
    using assms(4) by (rule typing_level2)
  show ?thesis
    unfolding r fst_conv snd_conv using d b v by (simp add: work_hard_fields)
qed

theorem work_hard_delta_witness:
  "origin grinderAtDesk = GRINDER \<and> status grinderAtDesk = RUNNING
   \<and> currentScene grinderAtDesk = WORKSTATION
   \<and> skillLevels grinderAtDesk ''eff_typing'' = 2 \<and> isReady grinderAtDesk (hd WORK_ACTIONS) 0
   \<and> favor grinderAtDesk = 0 \<and> favorCeiling grinderAtDesk = 100
   \<and> money grinderAtDesk = - 50000
   \<and> fst (resolveAction sampleTuning quietDice ''work_hard'' 0 grinderAtDesk)
      = Inr \<lparr>d_money = 0, d_favor = 14, d_rage = 0, d_skillPoints = 0\<rparr>
   \<and> d_favor (stateDelta grinderAtDesk
        (snd (resolveAction sampleTuning quietDice ''work_hard'' 0 grinderAtDesk))) = 14
   \<and> d_favor (stateDelta grinderAtDesk
        (snd (resolveAction sampleTuning loudDice ''work_hard'' 0 grinderAtDesk))) = 14
   \<and> favor workedOnce = 14"
proof -
  have g: "origin grinderAtDesk = GRINDER" "status grinderAtDesk = RUNNING"
    "currentScene grinderAtDesk = WORKSTATION"
    "skillLevels grinderAtDesk ''eff_typing'' = 2" "isReady grinderAtDesk (hd WORK_ACTIONS) 0"
    "favor grinderAtDesk = 0" "favorCeiling grinderAtDesk = 100"
    "money grinderAtDesk = - 50000"
    "fst (resolveAction sampleTuning quietDice ''work_hard'' 0 grinderAtDesk)
      = Inr \<lparr>d_money = 0, d_favor = 14, d_rage = 0, d_skillPoints = 0\<rparr>"
    "favor workedOnce = 14"
    by code_simp+
  have room: "0 \<le> favor grinderAtDesk" "favor grinderAtDesk + 14 < favorCeiling grinderAtDesk"
    unfolding g(6,7) by simp_all
  from work_hard_delta [OF g(1-5) room, of sampleTuning quietDice]
  have q: "d_favor (stateDelta grinderAtDesk
        (snd (resolveAction sampleTuning quietDice ''work_hard'' 0 grinderAtDesk))) = 14"
    by blast
  from work_hard_delta [OF g(1-5) room, of sampleTuning loudDice]
  have l: "d_favor (stateDelta grinderAtDesk
        (snd (resolveAction sampleTuning loudDice ''work_hard'' 0 grinderAtDesk))) = 14"
    by blast
  from g q l show ?thesis
    by (intro conjI) simp_all
qed

end
